theory Spec2Isabelle
  imports Complex_Main
begin

section \<open>The two training notebooks of TopoModelX\<close>

text \<open>
  The source file holds two Jupyter notebooks, one after the other: the SCA-CMPS
  notebook (a simplicial complex autoencoder) and the DHGCN notebook (a dynamic
  hypergraph network). A notebook is a list of code cells, run top to bottom on one
  interpreter state. Each cell is modelled as a function from the state (the variables
  of the notebook, a record) to the state after the cell, or to the exception it raises.

  The libraries the cells call (toponetx, numpy, scipy, torch, topomodelx) are not part
  of the repository. Their functions are fields of the record \<open>libs\<close>, a parameter of
  every cell, and a theorem stated for \<open>L\<close> holds for all libraries. The one exception is
  \<open>train_test_split\<close> of scikit-learn, which has a definition of its own below.
\<close>

subsection \<open>Python exceptions and subscripts\<close>

datatype error = IndexError | KeyError | ValueError | NameError | ZeroDivisionError

definition and_then :: "error + 'a \<Rightarrow> ('a \<Rightarrow> error + 'b) \<Rightarrow> error + 'b" where
  "and_then r f = (case r of Inl e \<Rightarrow> Inl e | Inr a \<Rightarrow> f a)"

definition getitem :: "'a list \<Rightarrow> nat \<Rightarrow> error + 'a" where
  \<comment> \<open>\<open>xs[i]\<close> for a literal \<open>i \<ge> 0\<close>\<close>
  "getitem xs i = (if i < length xs then Inr (xs ! i) else Inl IndexError)"

definition getitem_last :: "'a list \<Rightarrow> error + 'a" where
  \<comment> \<open>\<open>xs[-1]\<close>\<close>
  "getitem_last xs = (if xs = [] then Inl IndexError else Inr (last xs))"

definition lookup :: "(string \<rightharpoonup> 'a) \<Rightarrow> string \<Rightarrow> error + 'a" where
  \<comment> \<open>\<open>d[key]\<close> on a dict\<close>
  "lookup d k = (case d k of None \<Rightarrow> Inl KeyError | Some a \<Rightarrow> Inr a)"

subsection \<open>The external libraries\<close>

text \<open>
  \<open>'v\<close> is the type of the values the libraries hand out (arrays, sparse matrices,
  tensors, complexes, hypergraphs, devices, floats); Python does not tell them apart by
  type, and neither does the model. \<open>'p\<close> is the parameters of a module, \<open>'g\<close> the
  gradients stored beside them and \<open>'o\<close> the slots of an optimiser. The signatures say
  what torch lets each call write: \<open>opt.zero_grad()\<close> and \<open>loss.backward()\<close> write the
  gradients, \<open>opt.step()\<close> writes the optimiser and the parameters, and a forward pass
  and a loss read only. A forward pass depends on the mode of the module
  (\<open>model.train()\<close>) and on whether autograd records (\<open>torch.no_grad()\<close>).
\<close>

record ('v, 'p, 'g, 'o) libs =
  shrec_16 :: "string \<Rightarrow> (string \<rightharpoonup> 'v list)"
  np_array :: "'v list \<Rightarrow> 'v list"
  np_mean :: "'v list \<Rightarrow> 'v"
  shape :: "'v \<Rightarrow> nat list"
  down_laplacian_matrix :: "'v \<Rightarrow> nat \<Rightarrow> 'v"
  incidence_matrix :: "'v \<Rightarrow> nat \<Rightarrow> bool option \<Rightarrow> 'v"
  to_hypergraph :: "'v \<Rightarrow> 'v"
  transpose_T :: "'v \<Rightarrow> 'v"
  todense :: "'v \<Rightarrow> 'v"
  from_numpy :: "'v \<Rightarrow> 'v"
  to_sparse :: "'v \<Rightarrow> 'v"
  cuda_is_available :: bool
  torch_device :: "string \<Rightarrow> 'v"
  torch_tensor :: "'v \<Rightarrow> 'v"
  torch_tensor_float :: "'v \<Rightarrow> 'v"
  to_float :: "'v \<Rightarrow> 'v"
  to_device :: "'v \<Rightarrow> 'v \<Rightarrow> 'v"
  SCACMPS :: "nat list \<Rightarrow> nat \<Rightarrow> nat \<Rightarrow> nat \<Rightarrow> bool \<Rightarrow> 'p"
  DHGCN :: "nat \<Rightarrow> nat \<Rightarrow> 'p"
  model_to :: "'p \<Rightarrow> 'v \<Rightarrow> 'p"
  no_grads :: "'g"
  Adam :: "'p \<Rightarrow> rat \<Rightarrow> 'o"
  forward :: "'p \<Rightarrow> bool \<Rightarrow> bool \<Rightarrow> 'v \<Rightarrow> 'v"
  MSELoss :: "'v \<Rightarrow> 'v \<Rightarrow> 'v"
  zero_grad :: "'g \<Rightarrow> 'g"
  backward :: "'v \<Rightarrow> 'g \<Rightarrow> 'g"
  step :: "'o \<Rightarrow> 'p \<Rightarrow> 'g \<Rightarrow> 'o \<times> 'p"
  item :: "'v \<Rightarrow> 'v"

text \<open>
  \<open>sklearn.model_selection.train_test_split(arr, test_size=t, shuffle=False)\<close>, an
  external function, written out from its documented behaviour: a float \<open>test_size\<close>
  must lie strictly between 0 and 1, the test part has \<open>ceil(t * n)\<close> elements, the
  training part the other \<open>n - ceil(t * n)\<close>, an empty training part is a ValueError,
  and without shuffling the training part is the first elements and the test part the
  elements after them. Every call of the notebooks passes \<open>shuffle=False\<close>. The float
  \<open>t\<close> is read as the decimal fraction written in the source; at \<open>t = 0.2\<close> and
  \<open>n = 100\<close> the float product is exactly 20.0.
\<close>

definition train_test_split :: "'a list \<Rightarrow> rat \<Rightarrow> error + ('a list \<times> 'a list)" where
  "train_test_split arr t =
     (let n_samples = length arr
      in if t \<le> 0 \<or> 1 \<le> t then Inl ValueError
         else let n_test = nat \<lceil>t * of_nat n_samples\<rceil>;
                  n_train = n_samples - n_test
              in if n_train = 0 then Inl ValueError
                 else Inr (take n_train arr, take n_test (drop n_train arr)))"

subsection \<open>What the notebooks print and which calls they make on the model\<close>

datatype 'v printed =
    Print_device 'v
  | Print_cells nat string nat nat
  | Print_incidence_shape nat "nat list"
  | Print_epoch nat 'v
  | Print_test 'v

text \<open>
  The calls made on the module, the loss and the optimiser once they are built, in the
  order they are made, are recorded in the state (\<open>calls\<close>), each with the tensors it
  is given. A forward pass also records whether autograd was on.
\<close>

datatype 'v call =
    Call_train
  | Call_zero_grad
  | Call_forward bool 'v
  | Call_loss_fn 'v 'v
  | Call_backward 'v
  | Call_step

subsection \<open>The variables of a notebook\<close>

text \<open>
  The variables both notebooks bind are the fields of \<open>nb_env\<close>; each notebook extends
  it with its own. A variable that is assigned and read only inside one loop body
  (\<open>sc\<close>, \<open>incidence_1\<close>, \<open>x_0\<close>, \<open>y\<close>, \<open>y_hat\<close>) is a \<open>let\<close> of that body. \<open>loss\<close> is
  read after the loop that assigns it, so it is a field, and \<open>None\<close> while unbound.
  The notebook starts in a state that is a parameter: nothing is assumed about it.
\<close>

record ('v, 'p, 'g, 'o) nb_env =
  device :: "'v"
  shrec :: "string \<rightharpoonup> 'v list"
  x_0s :: "'v list"
  x_1s :: "'v list"
  x_2s :: "'v list"
  ys :: "'v list"
  i_complex :: nat
  test_size :: rat
  x_0_train :: "'v list"
  x_0_test :: "'v list"
  y_train :: "'v list"
  y_test :: "'v list"
  model :: "'p"
  grads :: "'g"
  opt :: "'o"
  loss_fn :: "'v \<Rightarrow> 'v \<Rightarrow> 'v"
  stdout :: "'v printed list"
  calls :: "'v call list"

record ('v, 'p, 'g, 'o) sca_env = "('v, 'p, 'g, 'o) nb_env" +
  scs :: "'v list"
  laplacian_down_1_list :: "'v list"
  laplacian_down_2_list :: "'v list"
  incidence1_t_list :: "'v list"
  incidence2_t_list :: "'v list"
  channels_list :: "nat list"
  complex_dim :: nat
  x_1_train :: "'v list"
  x_1_test :: "'v list"
  x_2_train :: "'v list"
  x_2_test :: "'v list"
  laplacian_down_1_train :: "'v list"
  laplacian_down_1_test :: "'v list"
  laplacian_down_2_train :: "'v list"
  laplacian_down_2_test :: "'v list"
  incidence1_t_train :: "'v list"
  incidence1_t_test :: "'v list"
  incidence2_t_train :: "'v list"
  incidence2_t_test :: "'v list"

record ('v, 'p, 'g, 'o) dhgcn_env = "('v, 'p, 'g, 'o) nb_env" +
  simplexes :: "'v list"
  hg_list :: "'v list"
  incidence_1_list :: "'v list"
  channels_edge :: nat
  channels_node :: nat
  training :: bool
  test_interval :: nat
  num_epochs :: nat
  epoch_i :: nat
  epoch_loss :: "'v list"
  loss :: "'v option"

fun run_cells :: "('e \<Rightarrow> error + 'e) list \<Rightarrow> 'e \<Rightarrow> error + 'e" where
  "run_cells [] env = Inr env"
| "run_cells (c # cs) env = (case c env of Inl e \<Rightarrow> Inl e | Inr env' \<Rightarrow> run_cells cs env')"

subsection \<open>Cells the two notebooks share\<close>

text \<open>
  \<^verbatim>\<open>device = torch.device("cuda" if torch.cuda.is_available() else "cpu")\<close>,
  then \<^verbatim>\<open>print(device)\<close>.
\<close>

definition cell_device ::
  "('v, 'p, 'g, 'o) libs \<Rightarrow> ('v, 'p, 'g, 'o, 'z) nb_env_scheme
     \<Rightarrow> error + ('v, 'p, 'g, 'o, 'z) nb_env_scheme" where
  "cell_device L env =
     (let env1 = env\<lparr>device := torch_device L (if cuda_is_available L then ''cuda'' else ''cpu'')\<rparr>
      in Inr (env1\<lparr>stdout := stdout env1 @ [Print_device (device env1)]\<rparr>))"

text \<open>
  One line of the three-line report on complex \<open>i_complex\<close>:
  \<^verbatim>\<open>print(f"The {i}th simplicial complex has {xs[i].shape[0]} nodes with features of dimension {xs[i].shape[1]}.")\<close>
\<close>

definition print_cells ::
  "('v, 'p, 'g, 'o) libs \<Rightarrow> string \<Rightarrow> 'v list \<Rightarrow> ('v, 'p, 'g, 'o, 'z) nb_env_scheme
     \<Rightarrow> error + ('v, 'p, 'g, 'o, 'z) nb_env_scheme" where
  "print_cells L kind xs env =
     and_then (getitem xs (i_complex env)) (\<lambda>a.
     and_then (getitem (shape L a) 0) (\<lambda>n.
     and_then (getitem xs (i_complex env)) (\<lambda>b.
     and_then (getitem (shape L b) 1) (\<lambda>d.
       Inr (env\<lparr>stdout := stdout env @ [Print_cells (i_complex env) kind n d]\<rparr>)))))"

definition cell_report ::
  "('v, 'p, 'g, 'o) libs \<Rightarrow> ('v, 'p, 'g, 'o, 'z) nb_env_scheme
     \<Rightarrow> error + ('v, 'p, 'g, 'o, 'z) nb_env_scheme" where
  "cell_report L env =
     (let env1 = env\<lparr>i_complex := 6\<rparr>
      in and_then (print_cells L ''nodes'' (x_0s env1) env1) (\<lambda>env2.
         and_then (print_cells L ''edges'' (x_1s env2) env2) (\<lambda>env3.
           print_cells L ''faces'' (x_2s env3) env3)))"

text \<open>
  The first lines of the cell that loads the dataset, the same in both notebooks:
  \<^verbatim>\<open>shrec, _ = datasets.mesh.shrec_16(size="small")\<close>,
  \<^verbatim>\<open>shrec = {key: np.array(value) for key, value in shrec.items()}\<close>, and the four
  subscripts \<^verbatim>\<open>x_0s = shrec["node_feat"]\<close> to \<^verbatim>\<open>ys = shrec["label"]\<close>.
\<close>

definition load_features ::
  "('v, 'p, 'g, 'o) libs \<Rightarrow> ('v, 'p, 'g, 'o, 'z) nb_env_scheme
     \<Rightarrow> error + ('v, 'p, 'g, 'o, 'z) nb_env_scheme" where
  "load_features L env =
     (let env1 = env\<lparr>shrec := shrec_16 L ''small''\<rparr>;
          env2 = env1\<lparr>shrec := (\<lambda>key. map_option (np_array L) (shrec env1 key))\<rparr>
      in and_then (lookup (shrec env2) ''node_feat'') (\<lambda>a.
         and_then (lookup (shrec env2) ''edge_feat'') (\<lambda>b.
         and_then (lookup (shrec env2) ''face_feat'') (\<lambda>c.
         and_then (lookup (shrec env2) ''label'') (\<lambda>d.
           Inr (env2\<lparr>x_0s := a, x_1s := b, x_2s := c, ys := d\<rparr>))))))"

subsection \<open>The cells of the SCA-CMPS notebook\<close>

definition sca_cell_load ::
  "('v, 'p, 'g, 'o) libs \<Rightarrow> ('v, 'p, 'g, 'o) sca_env \<Rightarrow> error + ('v, 'p, 'g, 'o) sca_env" where
  "sca_cell_load L env =
     and_then (load_features L env) (\<lambda>env1.
     and_then (lookup (shrec env1) ''complexes'') (\<lambda>c. Inr (env1\<lparr>scs := c\<rparr>)))"

text \<open>
  The body of \<^verbatim>\<open>for sc in scs:\<close>: four matrices from the complex, each converted by
  \<^verbatim>\<open>torch.from_numpy(m.todense()).to_sparse()\<close>, each appended to its list.
  \<open>incidence_matrix\<close> is called without \<open>signed\<close> here (\<open>None\<close>).
\<close>

definition sca_neighborhoods ::
  "('v, 'p, 'g, 'o) libs \<Rightarrow> ('v, 'p, 'g, 'o) sca_env \<Rightarrow> 'v \<Rightarrow> ('v, 'p, 'g, 'o) sca_env" where
  "sca_neighborhoods L env sc =
     (let laplacian_down_1 = down_laplacian_matrix L sc 1;
          laplacian_down_2 = down_laplacian_matrix L sc 2;
          incidence_1_t = transpose_T L (incidence_matrix L sc 1 None);
          incidence_2_t = transpose_T L (incidence_matrix L sc 2 None);
          laplacian_down_1 = to_sparse L (from_numpy L (todense L laplacian_down_1));
          laplacian_down_2 = to_sparse L (from_numpy L (todense L laplacian_down_2));
          incidence_1_t = to_sparse L (from_numpy L (todense L incidence_1_t));
          incidence_2_t = to_sparse L (from_numpy L (todense L incidence_2_t));
          env1 = env\<lparr>laplacian_down_1_list := laplacian_down_1_list env @ [laplacian_down_1]\<rparr>;
          env2 = env1\<lparr>laplacian_down_2_list := laplacian_down_2_list env1 @ [laplacian_down_2]\<rparr>;
          env3 = env2\<lparr>incidence1_t_list := incidence1_t_list env2 @ [incidence_1_t]\<rparr>
      in env3\<lparr>incidence2_t_list := incidence2_t_list env3 @ [incidence_2_t]\<rparr>)"

definition sca_cell_neighborhoods ::
  "('v, 'p, 'g, 'o) libs \<Rightarrow> ('v, 'p, 'g, 'o) sca_env \<Rightarrow> error + ('v, 'p, 'g, 'o) sca_env" where
  "sca_cell_neighborhoods L env =
     (let env1 = env\<lparr>laplacian_down_1_list := [], laplacian_down_2_list := [],
                     incidence1_t_list := [], incidence2_t_list := []\<rparr>
      in Inr (foldl (sca_neighborhoods L) env1 (scs env1)))"

text \<open>
  \<^verbatim>\<open>channels_list = [x_0s[0].shape[-1], x_1s[0].shape[-1], x_2s[0].shape[-1]]\<close> and
  \<^verbatim>\<open>complex_dim = 3\<close>. The cell after it only displays \<open>x_0s.shape\<close>.
\<close>

definition sca_cell_channels ::
  "('v, 'p, 'g, 'o) libs \<Rightarrow> ('v, 'p, 'g, 'o) sca_env \<Rightarrow> error + ('v, 'p, 'g, 'o) sca_env" where
  "sca_cell_channels L env =
     and_then (getitem (x_0s env) 0) (\<lambda>a. and_then (getitem_last (shape L a)) (\<lambda>c0.
     and_then (getitem (x_1s env) 0) (\<lambda>b. and_then (getitem_last (shape L b)) (\<lambda>c1.
     and_then (getitem (x_2s env) 0) (\<lambda>c. and_then (getitem_last (shape L c)) (\<lambda>c2.
       Inr (env\<lparr>channels_list := [c0, c1, c2], complex_dim := 3\<rparr>)))))))"

text \<open>
  The split cell: \<^verbatim>\<open>test_size = 0.2\<close>, then eight calls
  \<^verbatim>\<open>train_test_split(arr, test_size=test_size, shuffle=False)\<close>, in the order of the
  source. Its last line displays \<open>y_train.shape\<close>.
\<close>

definition sca_cell_split ::
  "('v, 'p, 'g, 'o) sca_env \<Rightarrow> error + ('v, 'p, 'g, 'o) sca_env" where
  "sca_cell_split env =
     (let env0 = env\<lparr>test_size := 2 / 10\<rparr>
      in and_then (train_test_split (x_0s env0) (test_size env0)) (\<lambda>(tr, te).
         let env1 = env0\<lparr>x_0_train := tr, x_0_test := te\<rparr>
         in and_then (train_test_split (x_1s env1) (test_size env1)) (\<lambda>(tr, te).
         let env2 = env1\<lparr>x_1_train := tr, x_1_test := te\<rparr>
         in and_then (train_test_split (x_2s env2) (test_size env2)) (\<lambda>(tr, te).
         let env3 = env2\<lparr>x_2_train := tr, x_2_test := te\<rparr>
         in and_then (train_test_split (laplacian_down_1_list env3) (test_size env3)) (\<lambda>(tr, te).
         let env4 = env3\<lparr>laplacian_down_1_train := tr, laplacian_down_1_test := te\<rparr>
         in and_then (train_test_split (laplacian_down_2_list env4) (test_size env4)) (\<lambda>(tr, te).
         let env5 = env4\<lparr>laplacian_down_2_train := tr, laplacian_down_2_test := te\<rparr>
         in and_then (train_test_split (incidence1_t_list env5) (test_size env5)) (\<lambda>(tr, te).
         let env6 = env5\<lparr>incidence1_t_train := tr, incidence1_t_test := te\<rparr>
         in and_then (train_test_split (incidence2_t_list env6) (test_size env6)) (\<lambda>(tr, te).
         let env7 = env6\<lparr>incidence2_t_train := tr, incidence2_t_test := te\<rparr>
         in and_then (train_test_split (ys env7) (test_size env7)) (\<lambda>(tr, te).
           Inr (env7\<lparr>y_train := tr, y_test := te\<rparr>))))))))))"

text \<open>
  The last cell of the notebook:
  \<^verbatim>\<open>model = SCACMPS(channels_list=channels_list, complex_dim=complex_dim, n_classes=1, n_layers=3, att=False)\<close>,
  \<^verbatim>\<open>model = model.to(device)\<close>, \<^verbatim>\<open>opt = torch.optim.Adam(model.parameters(), lr=0.1)\<close>,
  \<^verbatim>\<open>loss_fn = torch.nn.MSELoss()\<close>. A module that has just been built has no
  gradients and has received no call.
\<close>

definition sca_cell_model ::
  "('v, 'p, 'g, 'o) libs \<Rightarrow> ('v, 'p, 'g, 'o) sca_env \<Rightarrow> error + ('v, 'p, 'g, 'o) sca_env" where
  "sca_cell_model L env =
     (let env1 = env\<lparr>model := SCACMPS L (channels_list env) (complex_dim env) 1 3 False,
                     grads := no_grads L, calls := []\<rparr>;
          env2 = env1\<lparr>model := model_to L (model env1) (device env1)\<rparr>;
          env3 = env2\<lparr>opt := Adam L (model env2) (1 / 10)\<rparr>
      in Inr (env3\<lparr>loss_fn := MSELoss L\<rparr>))"

text \<open>The notebook, top to bottom.\<close>

definition sca_cmps_notebook ::
  "('v, 'p, 'g, 'o) libs \<Rightarrow> (('v, 'p, 'g, 'o) sca_env \<Rightarrow> error + ('v, 'p, 'g, 'o) sca_env) list" where
  "sca_cmps_notebook L =
     [cell_device L, sca_cell_load L, cell_report L, sca_cell_neighborhoods L,
      sca_cell_channels L, sca_cell_split, sca_cell_model L]"

subsection \<open>The cells of the DHGCN notebook\<close>

definition dhgcn_cell_load ::
  "('v, 'p, 'g, 'o) libs \<Rightarrow> ('v, 'p, 'g, 'o) dhgcn_env \<Rightarrow> error + ('v, 'p, 'g, 'o) dhgcn_env" where
  "dhgcn_cell_load L env =
     and_then (load_features L env) (\<lambda>env1.
     and_then (lookup (shrec env1) ''complexes'') (\<lambda>c. Inr (env1\<lparr>simplexes := c\<rparr>)))"

text \<open>
  Two cells display shapes and bind nothing. The first reads the shapes of the five
  arrays; the second is \<^verbatim>\<open>x_0s[4].shape, x_1s[0].shape, x_2s[0].shape\<close>, whose
  subscripts can raise.
\<close>

definition dhgcn_cell_shapes ::
  "('v, 'p, 'g, 'o) dhgcn_env \<Rightarrow> error + ('v, 'p, 'g, 'o) dhgcn_env" where
  "dhgcn_cell_shapes env =
     and_then (getitem (x_0s env) 4) (\<lambda>a.
     and_then (getitem (x_1s env) 0) (\<lambda>b.
     and_then (getitem (x_2s env) 0) (\<lambda>c. Inr env)))"

text \<open>
  The body of \<^verbatim>\<open>for simplex in simplexes:\<close>:
  \<^verbatim>\<open>incidence_1 = simplex.incidence_matrix(rank=1, signed=False)\<close>,
  \<^verbatim>\<open>incidence_1 = torch.from_numpy(incidence_1.todense()).to_sparse()\<close>,
  \<^verbatim>\<open>incidence_1_list.append(incidence_1)\<close>, \<^verbatim>\<open>hg = simplex.to_hypergraph()\<close>,
  \<^verbatim>\<open>hg_list.append(hg)\<close>.
\<close>

definition dhgcn_lift ::
  "('v, 'p, 'g, 'o) libs \<Rightarrow> ('v, 'p, 'g, 'o) dhgcn_env \<Rightarrow> 'v \<Rightarrow> ('v, 'p, 'g, 'o) dhgcn_env" where
  "dhgcn_lift L env simplex =
     (let incidence_1 = incidence_matrix L simplex 1 (Some False);
          incidence_1 = to_sparse L (from_numpy L (todense L incidence_1));
          env1 = env\<lparr>incidence_1_list := incidence_1_list env @ [incidence_1]\<rparr>;
          hg = to_hypergraph L simplex
      in env1\<lparr>hg_list := hg_list env1 @ [hg]\<rparr>)"

definition dhgcn_cell_lift ::
  "('v, 'p, 'g, 'o) libs \<Rightarrow> ('v, 'p, 'g, 'o) dhgcn_env \<Rightarrow> error + ('v, 'p, 'g, 'o) dhgcn_env" where
  "dhgcn_cell_lift L env =
     (let env1 = env\<lparr>hg_list := [], incidence_1_list := []\<rparr>
      in Inr (foldl (dhgcn_lift L) env1 (simplexes env1)))"

text \<open>
  \<^verbatim>\<open>i_complex = 6\<close>, then
  \<^verbatim>\<open>print(f"The {i_complex}th hypergraph has an incidence matrix of shape {incidence_1_list[i_complex].shape}.")\<close>
\<close>

definition dhgcn_cell_incidence_shape ::
  "('v, 'p, 'g, 'o) libs \<Rightarrow> ('v, 'p, 'g, 'o) dhgcn_env \<Rightarrow> error + ('v, 'p, 'g, 'o) dhgcn_env" where
  "dhgcn_cell_incidence_shape L env =
     (let env1 = env\<lparr>i_complex := 6\<rparr>
      in and_then (getitem (incidence_1_list env1) (i_complex env1)) (\<lambda>m.
           Inr (env1\<lparr>stdout := stdout env1 @ [Print_incidence_shape (i_complex env1) (shape L m)]\<rparr>)))"

text \<open>
  \<^verbatim>\<open>channels_edge = x_1s[0].shape[1]\<close>, \<^verbatim>\<open>channels_node = x_0s[0].shape[1]\<close>,
  \<^verbatim>\<open>model = DHGCN(channels_node, n_layers=2)\<close>, \<^verbatim>\<open>model = model.to(device)\<close>.
\<close>

definition dhgcn_cell_model ::
  "('v, 'p, 'g, 'o) libs \<Rightarrow> ('v, 'p, 'g, 'o) dhgcn_env \<Rightarrow> error + ('v, 'p, 'g, 'o) dhgcn_env" where
  "dhgcn_cell_model L env =
     and_then (getitem (x_1s env) 0) (\<lambda>b. and_then (getitem (shape L b) 1) (\<lambda>ce.
     let env1 = env\<lparr>channels_edge := ce\<rparr>
     in and_then (getitem (x_0s env1) 0) (\<lambda>a. and_then (getitem (shape L a) 1) (\<lambda>cn.
     let env2 = env1\<lparr>channels_node := cn\<rparr>;
         env3 = env2\<lparr>model := DHGCN L (channels_node env2) 2, grads := no_grads L, calls := []\<rparr>
     in Inr (env3\<lparr>model := model_to L (model env3) (device env3)\<rparr>)))))"

text \<open>
  \<^verbatim>\<open>loss_fn = torch.nn.MSELoss()\<close>, \<^verbatim>\<open>opt = torch.optim.Adam(model.parameters(), lr=0.1)\<close>.
\<close>

definition dhgcn_cell_optimizer ::
  "('v, 'p, 'g, 'o) libs \<Rightarrow> ('v, 'p, 'g, 'o) dhgcn_env \<Rightarrow> error + ('v, 'p, 'g, 'o) dhgcn_env" where
  "dhgcn_cell_optimizer L env =
     (let env1 = env\<lparr>loss_fn := MSELoss L\<rparr>
      in Inr (env1\<lparr>opt := Adam L (model env1) (1 / 10)\<rparr>))"

text \<open>
  \<^verbatim>\<open>test_size = 0.2\<close> and the two calls of \<open>train_test_split\<close>, on \<open>x_0s\<close> and \<open>ys\<close>.
\<close>

definition dhgcn_cell_split ::
  "('v, 'p, 'g, 'o) dhgcn_env \<Rightarrow> error + ('v, 'p, 'g, 'o) dhgcn_env" where
  "dhgcn_cell_split env =
     (let env0 = env\<lparr>test_size := 2 / 10\<rparr>
      in and_then (train_test_split (x_0s env0) (test_size env0)) (\<lambda>(tr, te).
         let env1 = env0\<lparr>x_0_train := tr, x_0_test := te\<rparr>
         in and_then (train_test_split (ys env1) (test_size env1)) (\<lambda>(tr, te).
           Inr (env1\<lparr>y_train := tr, y_test := te\<rparr>))))"

text \<open>
  The training cell. The body of the inner training loop,
  \<^verbatim>\<open>for x_0, y in zip(x_0_train, y_train):\<close>, on one pair:
  \<^verbatim>\<open>x_0 = torch.tensor(x_0)\<close>,
  \<^verbatim>\<open>x_0, y = (x_0.float().to(device), torch.tensor(y, dtype=torch.float).to(device))\<close>,
  \<^verbatim>\<open>opt.zero_grad()\<close>, \<^verbatim>\<open>y_hat = model(x_0)\<close>, \<^verbatim>\<open>loss = loss_fn(y_hat, y)\<close>,
  \<^verbatim>\<open>loss.backward()\<close>, \<^verbatim>\<open>opt.step()\<close>, \<^verbatim>\<open>epoch_loss.append(loss.item())\<close>.
  Autograd is on here: the notebook turns it off only inside \<open>with torch.no_grad()\<close>.
\<close>

definition train_sample ::
  "('v, 'p, 'g, 'o) libs \<Rightarrow> ('v, 'p, 'g, 'o) dhgcn_env \<Rightarrow> 'v \<times> 'v \<Rightarrow> ('v, 'p, 'g, 'o) dhgcn_env" where
  "train_sample L env xy =
     (let x_0 = torch_tensor L (fst xy);
          x_0 = to_device L (to_float L x_0) (device env);
          y = to_device L (torch_tensor_float L (snd xy)) (device env);
          env1 = env\<lparr>grads := zero_grad L (grads env), calls := calls env @ [Call_zero_grad]\<rparr>;
          y_hat = forward L (model env1) (training env1) True x_0;
          env2 = env1\<lparr>calls := calls env1 @ [Call_forward True x_0]\<rparr>;
          l = loss_fn env2 y_hat y;
          env3 = env2\<lparr>loss := Some l, calls := calls env2 @ [Call_loss_fn y_hat y]\<rparr>;
          env4 = env3\<lparr>grads := backward L l (grads env3), calls := calls env3 @ [Call_backward l]\<rparr>;
          env5 = env4\<lparr>opt := fst (step L (opt env4) (model env4) (grads env4)),
                        model := snd (step L (opt env4) (model env4) (grads env4)),
                        calls := calls env4 @ [Call_step]\<rparr>
      in env5\<lparr>epoch_loss := epoch_loss env5 @ [item L l]\<rparr>)"

text \<open>
  The body of the evaluation loop, \<^verbatim>\<open>for x_0, y in zip(x_0_test, y_test):\<close> inside
  \<^verbatim>\<open>with torch.no_grad():\<close>: the same two conversions, then \<^verbatim>\<open>y_hat = model(x_0)\<close>
  and \<^verbatim>\<open>loss = loss_fn(y_hat, y)\<close>.
\<close>

definition test_sample ::
  "('v, 'p, 'g, 'o) libs \<Rightarrow> ('v, 'p, 'g, 'o) dhgcn_env \<Rightarrow> 'v \<times> 'v \<Rightarrow> ('v, 'p, 'g, 'o) dhgcn_env" where
  "test_sample L env xy =
     (let x_0 = torch_tensor L (fst xy);
          x_0 = to_device L (to_float L x_0) (device env);
          y = to_device L (torch_tensor_float L (snd xy)) (device env);
          y_hat = forward L (model env) (training env) False x_0;
          env1 = env\<lparr>calls := calls env @ [Call_forward False x_0]\<rparr>;
          l = loss_fn env1 y_hat y
      in env1\<lparr>loss := Some l, calls := calls env1 @ [Call_loss_fn y_hat y]\<rparr>)"

text \<open>
  The evaluation branch: the loop over the test pairs, then, outside the loop and inside
  the \<open>with\<close>, \<^verbatim>\<open>print(f"Test_loss: {loss:.4f}", flush=True)\<close>. Reading \<open>loss\<close> while it is
  unbound is a NameError.
\<close>

definition test_branch ::
  "('v, 'p, 'g, 'o) libs \<Rightarrow> ('v, 'p, 'g, 'o) dhgcn_env \<Rightarrow> error + ('v, 'p, 'g, 'o) dhgcn_env" where
  "test_branch L env =
     (let env1 = foldl (test_sample L) env (zip (x_0_test env) (y_test env))
      in case loss env1 of
           None \<Rightarrow> Inl NameError
         | Some l \<Rightarrow> Inr (env1\<lparr>stdout := stdout env1 @ [Print_test l]\<rparr>))"

text \<open>
  The training phase of one epoch: \<^verbatim>\<open>epoch_loss = []\<close>, \<^verbatim>\<open>model.train()\<close>, the inner
  loop, and \<^verbatim>\<open>print(f"Epoch: {epoch_i} loss: {np.mean(epoch_loss):.4f}", flush=True)\<close>.
\<close>

definition train_phase ::
  "('v, 'p, 'g, 'o) libs \<Rightarrow> ('v, 'p, 'g, 'o) dhgcn_env \<Rightarrow> ('v, 'p, 'g, 'o) dhgcn_env" where
  "train_phase L env =
     (let env1 = env\<lparr>epoch_loss := []\<rparr>;
          env2 = env1\<lparr>training := True, calls := calls env1 @ [Call_train]\<rparr>;
          env3 = foldl (train_sample L) env2 (zip (x_0_train env2) (y_train env2))
      in env3\<lparr>stdout := stdout env3 @ [Print_epoch (epoch_i env3) (np_mean L (epoch_loss env3))]\<rparr>)"

text \<open>
  One pass of \<^verbatim>\<open>for epoch_i in range(1, num_epochs + 1):\<close>: the training phase, then
  \<^verbatim>\<open>if epoch_i % test_interval == 0:\<close> the evaluation branch.
\<close>

definition epoch ::
  "('v, 'p, 'g, 'o) libs \<Rightarrow> ('v, 'p, 'g, 'o) dhgcn_env \<Rightarrow> nat \<Rightarrow> error + ('v, 'p, 'g, 'o) dhgcn_env" where
  "epoch L env i =
     (let env1 = train_phase L (env\<lparr>epoch_i := i\<rparr>)
      in if test_interval env1 = 0 then Inl ZeroDivisionError
         else if epoch_i env1 mod test_interval env1 = 0 then test_branch L env1
         else Inr env1)"

fun epochs ::
  "('v, 'p, 'g, 'o) libs \<Rightarrow> ('v, 'p, 'g, 'o) dhgcn_env \<Rightarrow> nat list \<Rightarrow> error + ('v, 'p, 'g, 'o) dhgcn_env" where
  "epochs L env [] = Inr env"
| "epochs L env (i # is) = (case epoch L env i of Inl e \<Rightarrow> Inl e | Inr env' \<Rightarrow> epochs L env' is)"

definition dhgcn_cell_train ::
  "('v, 'p, 'g, 'o) libs \<Rightarrow> ('v, 'p, 'g, 'o) dhgcn_env \<Rightarrow> error + ('v, 'p, 'g, 'o) dhgcn_env" where
  "dhgcn_cell_train L env =
     (let env1 = env\<lparr>test_interval := 1\<rparr>;
          env2 = env1\<lparr>num_epochs := 5\<rparr>
      in epochs L env2 [1 ..< num_epochs env2 + 1])"

text \<open>The notebook, top to bottom.\<close>

definition dhgcn_notebook ::
  "('v, 'p, 'g, 'o) libs \<Rightarrow> (('v, 'p, 'g, 'o) dhgcn_env \<Rightarrow> error + ('v, 'p, 'g, 'o) dhgcn_env) list" where
  "dhgcn_notebook L =
     [cell_device L, dhgcn_cell_load L, dhgcn_cell_shapes, cell_report L, dhgcn_cell_lift L,
      dhgcn_cell_incidence_shape L, dhgcn_cell_model L, dhgcn_cell_optimizer L,
      dhgcn_cell_split, dhgcn_cell_train L]"

subsection \<open>Vocabulary of the statements\<close>

text \<open>
  The two conversions every sample goes through before it reaches the model, as the
  training and the evaluation loop both write them:
  \<^verbatim>\<open>torch.tensor(x_0).float().to(device)\<close> and
  \<^verbatim>\<open>torch.tensor(y, dtype=torch.float).to(device)\<close>.
\<close>

definition as_input :: "('v, 'p, 'g, 'o) libs \<Rightarrow> 'v \<Rightarrow> 'v \<Rightarrow> 'v" where
  "as_input L dev x = to_device L (to_float L (torch_tensor L x)) dev"

definition as_label :: "('v, 'p, 'g, 'o) libs \<Rightarrow> 'v \<Rightarrow> 'v \<Rightarrow> 'v" where
  "as_label L dev y = to_device L (torch_tensor_float L y) dev"

text \<open>
  \<open>loss_fn(model(x_0), y)\<close> on one sample, for parameters \<open>p\<close>, a module in mode \<open>tr\<close>
  and autograd switched as \<open>gr\<close> says.
\<close>

definition sample_loss ::
  "('v, 'p, 'g, 'o) libs \<Rightarrow> 'v \<Rightarrow> ('v \<Rightarrow> 'v \<Rightarrow> 'v) \<Rightarrow> bool \<Rightarrow> bool \<Rightarrow> 'p \<Rightarrow> 'v \<times> 'v \<Rightarrow> 'v" where
  "sample_loss L dev lf tr gr p xy =
     lf (forward L p tr gr (as_input L dev (fst xy))) (as_label L dev (snd xy))"

text \<open>
  What training can write: the parameters, their gradients and the optimiser.
\<close>

definition net_of :: "('v, 'p, 'g, 'o, 'z) nb_env_scheme \<Rightarrow> 'p \<times> 'g \<times> 'o" where
  "net_of env = (model env, grads env, opt env)"

text \<open>
  The training step as the specification words it: zero the gradients, forward pass,
  loss, backward pass, optimiser step, in that order and nothing else.
\<close>

fun sgd_step ::
  "('v, 'p, 'g, 'o) libs \<Rightarrow> 'v \<Rightarrow> ('v \<Rightarrow> 'v \<Rightarrow> 'v) \<Rightarrow> 'p \<times> 'g \<times> 'o \<Rightarrow> 'v \<times> 'v
     \<Rightarrow> 'p \<times> 'g \<times> 'o" where
  "sgd_step L dev lf (p, g, o') xy =
     (let g0 = zero_grad L g;
          l = sample_loss L dev lf True True p xy;
          g1 = backward L l g0;
          r = step L o' p g1
      in (snd r, g1, fst r))"

text \<open>One epoch of it, over the training pairs in order; and the losses it computes.\<close>

definition sgd_epoch ::
  "('v, 'p, 'g, 'o) libs \<Rightarrow> 'v \<Rightarrow> ('v \<Rightarrow> 'v \<Rightarrow> 'v) \<Rightarrow> ('v \<times> 'v) list \<Rightarrow> 'p \<times> 'g \<times> 'o
     \<Rightarrow> 'p \<times> 'g \<times> 'o" where
  "sgd_epoch L dev lf ps s = foldl (sgd_step L dev lf) s ps"

fun sgd_losses ::
  "('v, 'p, 'g, 'o) libs \<Rightarrow> 'v \<Rightarrow> ('v \<Rightarrow> 'v \<Rightarrow> 'v) \<Rightarrow> 'p \<times> 'g \<times> 'o \<Rightarrow> ('v \<times> 'v) list
     \<Rightarrow> 'v list" where
  "sgd_losses L dev lf s [] = []"
| "sgd_losses L dev lf s (xy # ps) =
     sample_loss L dev lf True True (fst s) xy # sgd_losses L dev lf (sgd_step L dev lf s xy) ps"

text \<open>A call without its arguments, and the inputs of the forward passes of a log.\<close>

datatype op = Op_train | Op_zero_grad | Op_forward | Op_loss_fn | Op_backward | Op_step

fun op_of :: "'v call \<Rightarrow> op" where
  "op_of Call_train = Op_train"
| "op_of Call_zero_grad = Op_zero_grad"
| "op_of (Call_forward gr x) = Op_forward"
| "op_of (Call_loss_fn a b) = Op_loss_fn"
| "op_of (Call_backward l) = Op_backward"
| "op_of Call_step = Op_step"

fun call_args :: "'v call \<Rightarrow> 'v list" where
  "call_args Call_train = []"
| "call_args Call_zero_grad = []"
| "call_args (Call_forward gr x) = [x]"
| "call_args (Call_loss_fn a b) = [a, b]"
| "call_args (Call_backward l) = [l]"
| "call_args Call_step = []"

fun forward_inputs :: "bool \<Rightarrow> 'v call list \<Rightarrow> 'v list" where
  "forward_inputs gr [] = []"
| "forward_inputs gr (Call_forward gr' x # cs) =
     (if gr' = gr then x # forward_inputs gr cs else forward_inputs gr cs)"
| "forward_inputs gr (c # cs) = forward_inputs gr cs"

definition writes_net :: "op \<Rightarrow> bool" where
  \<comment> \<open>the calls that write gradients, parameters or optimiser\<close>
  "writes_net k = (k = Op_zero_grad \<or> k = Op_backward \<or> k = Op_step)"

text \<open>
  The data a notebook loads and the lists it derives from the complexes.
\<close>

definition loaded :: "('v, 'p, 'g, 'o, 'z) nb_env_scheme \<Rightarrow> 'v list \<times> 'v list \<times> 'v list \<times> 'v list" where
  "loaded env = (x_0s env, x_1s env, x_2s env, ys env)"

definition sca_derived ::
  "('v, 'p, 'g, 'o) sca_env \<Rightarrow> 'v list \<times> 'v list \<times> 'v list \<times> 'v list" where
  "sca_derived env =
     (laplacian_down_1_list env, laplacian_down_2_list env, incidence1_t_list env,
      incidence2_t_list env)"

definition dhgcn_derived :: "('v, 'p, 'g, 'o) dhgcn_env \<Rightarrow> 'v list \<times> 'v list" where
  "dhgcn_derived env = (incidence_1_list env, hg_list env)"

text \<open>
  The conversion of a scipy matrix into a sparse tensor,
  \<^verbatim>\<open>torch.from_numpy(m.todense()).to_sparse()\<close>.
\<close>

definition sparse :: "('v, 'p, 'g, 'o) libs \<Rightarrow> 'v \<Rightarrow> 'v" where
  "sparse L m = to_sparse L (from_numpy L (todense L m))"

text \<open>
  The variables the epoch loop reads and never assigns.
\<close>

definition kept ::
  "('v, 'p, 'g, 'o) dhgcn_env \<Rightarrow>
     'v \<times> ('v \<Rightarrow> 'v \<Rightarrow> 'v) \<times> 'v list \<times> 'v list \<times> 'v list \<times> 'v list \<times> nat \<times> nat \<times> 'v list" where
  "kept env =
     (device env, loss_fn env, x_0_train env, y_train env, x_0_test env, y_test env,
      test_interval env, num_epochs env, simplexes env)"

text \<open>
  The calls of one training step, and of one epoch over \<open>n\<close> training pairs and \<open>m\<close>
  test pairs: \<open>model.train()\<close>, the training steps, the evaluation passes.
\<close>

definition five_ops :: "op list" where
  "five_ops = [Op_zero_grad, Op_forward, Op_loss_fn, Op_backward, Op_step]"

definition epoch_ops :: "nat \<Rightarrow> nat \<Rightarrow> op list" where
  "epoch_ops n m =
     Op_train # concat (replicate n five_ops) @ concat (replicate m [Op_forward, Op_loss_fn])"

text \<open>
  The state with the two lists of the lifting cell replaced by other lists.
\<close>

definition with_lifted ::
  "'v list \<Rightarrow> 'v list \<Rightarrow> ('v, 'p, 'g, 'o) dhgcn_env \<Rightarrow> ('v, 'p, 'g, 'o) dhgcn_env" where
  "with_lifted a b env = env\<lparr>incidence_1_list := a, hg_list := b\<rparr>"

subsection \<open>A small instance of the libraries\<close>

text \<open>
  For evaluating the notebooks: library values are terms that show which function built
  them from what, a dataset of ten samples, and parameters, gradients and optimiser
  that count the steps taken.
\<close>

datatype kind = Node_feat | Edge_feat | Face_feat | Label | Complex

datatype fn =
    F_down_laplacian_matrix | F_incidence_matrix | F_unsigned_incidence_matrix
  | F_to_hypergraph | F_T | F_todense | F_from_numpy | F_to_sparse | F_tensor | F_tensor_float
  | F_float | F_to | F_model | F_mse | F_mean | F_item

datatype sym = Sample kind nat | Cuda | Cpu | Num nat | Fn fn "sym list"

fun sub :: "sym \<Rightarrow> sym list" and subs :: "sym list \<Rightarrow> sym list" where
  "sub (Sample k i) = [Sample k i]"
| "sub Cuda = [Cuda]"
| "sub Cpu = [Cpu]"
| "sub (Num n) = [Num n]"
| "sub (Fn f ts) = Fn f ts # subs ts"
| "subs [] = []"
| "subs (t # ts) = sub t @ subs ts"

definition mentions :: "sym \<Rightarrow> sym \<Rightarrow> bool" where
  \<comment> \<open>\<open>mentions m t\<close>: the term \<open>m\<close> occurs in the term \<open>t\<close>\<close>
  "mentions m t = (m \<in> set (sub t))"

definition ten :: "kind \<Rightarrow> sym list" where
  "ten k = map (Sample k) [0 ..< 10]"

definition sym_shape :: "sym \<Rightarrow> nat list" where
  "sym_shape v =
     (case v of
        Sample Node_feat i \<Rightarrow> [252, 6]
      | Sample Edge_feat i \<Rightarrow> [750, 10]
      | Sample Face_feat i \<Rightarrow> [500, 7]
      | Fn f ts \<Rightarrow> [252, 750]
      | _ \<Rightarrow> [])"

definition sym_libs :: "(sym, nat, nat, nat) libs" where
  "sym_libs =
     \<lparr> shrec_16 = (\<lambda>size. if size = ''small''
          then map_of [(''node_feat'', ten Node_feat), (''edge_feat'', ten Edge_feat),
                       (''face_feat'', ten Face_feat), (''label'', ten Label),
                       (''complexes'', ten Complex)]
          else Map.empty),
       np_array = (\<lambda>xs. xs),
       np_mean = (\<lambda>xs. Fn F_mean xs),
       shape = sym_shape,
       down_laplacian_matrix = (\<lambda>c r. Fn F_down_laplacian_matrix [c, Num r]),
       incidence_matrix = (\<lambda>c r signed.
          Fn (if signed = Some False then F_unsigned_incidence_matrix else F_incidence_matrix)
            [c, Num r]),
       to_hypergraph = (\<lambda>c. Fn F_to_hypergraph [c]),
       transpose_T = (\<lambda>m. Fn F_T [m]),
       todense = (\<lambda>m. Fn F_todense [m]),
       from_numpy = (\<lambda>m. Fn F_from_numpy [m]),
       to_sparse = (\<lambda>m. Fn F_to_sparse [m]),
       cuda_is_available = False,
       torch_device = (\<lambda>name. if name = ''cuda'' then Cuda else Cpu),
       torch_tensor = (\<lambda>x. Fn F_tensor [x]),
       torch_tensor_float = (\<lambda>x. Fn F_tensor_float [x]),
       to_float = (\<lambda>x. Fn F_float [x]),
       to_device = (\<lambda>x d. Fn F_to [x, d]),
       SCACMPS = (\<lambda>chs dim ncls nl att. 0),
       DHGCN = (\<lambda>ch nl. 0),
       model_to = (\<lambda>p d. p),
       no_grads = 0,
       Adam = (\<lambda>p lr. 0),
       forward = (\<lambda>p tr gr x. Fn F_model [Num p, x]),
       MSELoss = (\<lambda>a b. Fn F_mse [a, b]),
       zero_grad = (\<lambda>g. 0),
       backward = (\<lambda>l g. Suc g),
       step = (\<lambda>k p g. (Suc k, p + g)),
       item = (\<lambda>l. Fn F_item [l]) \<rparr>"

text \<open>
  The claim that an incidence matrix or a hypergraph reaches a call on the model, the
  loss or the optimiser: some argument of some recorded call mentions one.
\<close>

definition consumes_lifted :: "(sym, 'p, 'g, 'o) dhgcn_env \<Rightarrow> bool" where
  "consumes_lifted env =
     list_ex (\<lambda>c. list_ex (\<lambda>a. list_ex (\<lambda>m. mentions m a) (incidence_1_list env @ hg_list env))
       (call_args c)) (calls env)"

definition sym_nb_env :: "'z \<Rightarrow> (sym, nat, nat, nat, 'z) nb_env_scheme" where
  "sym_nb_env z =
     \<lparr> device = Cpu, shrec = Map.empty, x_0s = [], x_1s = [], x_2s = [], ys = [],
       i_complex = 0, test_size = 0, x_0_train = [], x_0_test = [], y_train = [],
       y_test = [], model = 0, grads = 0, opt = 0, loss_fn = (\<lambda>a b. a), stdout = [],
       calls = [], \<dots> = z \<rparr>"

definition sym_sca_env :: "(sym, nat, nat, nat) sca_env" where
  "sym_sca_env =
     sym_nb_env
       \<lparr> scs = [], laplacian_down_1_list = [], laplacian_down_2_list = [],
         incidence1_t_list = [], incidence2_t_list = [], channels_list = [],
         complex_dim = 0, x_1_train = [], x_1_test = [], x_2_train = [], x_2_test = [],
         laplacian_down_1_train = [], laplacian_down_1_test = [],
         laplacian_down_2_train = [], laplacian_down_2_test = [],
         incidence1_t_train = [], incidence1_t_test = [], incidence2_t_train = [],
         incidence2_t_test = [] \<rparr>"

definition sym_dhgcn_env :: "(sym, nat, nat, nat) dhgcn_env" where
  "sym_dhgcn_env =
     sym_nb_env
       \<lparr> simplexes = [], hg_list = [], incidence_1_list = [], channels_edge = 0,
         channels_node = 0, training = False, test_interval = 0, num_epochs = 0,
         epoch_i = 0, epoch_loss = [], loss = None \<rparr>"

text \<open>
  A state as the split cell of the DHGCN notebook leaves it, on four samples: two for
  training, two for testing.
\<close>

definition sym_split_env :: "(sym, nat, nat, nat) dhgcn_env" where
  "sym_split_env =
     sym_dhgcn_env
       \<lparr> device := Cpu, x_0_train := [Sample Node_feat 0, Sample Node_feat 1],
         x_0_test := [Sample Node_feat 2, Sample Node_feat 3],
         y_train := [Sample Label 0, Sample Label 1],
         y_test := [Sample Label 2, Sample Label 3],
         loss_fn := (\<lambda>a b. Fn F_mse [a, b]) \<rparr>"

text \<open>
  States with a hundred samples in every array, as the dataset has them.
\<close>

definition hundred :: "kind \<Rightarrow> sym list" where
  "hundred k = map (Sample k) [0 ..< 100]"

definition sym_hundred_sca_env :: "(sym, nat, nat, nat) sca_env" where
  "sym_hundred_sca_env =
     sym_sca_env
       \<lparr> x_0s := hundred Node_feat, x_1s := hundred Edge_feat, x_2s := hundred Face_feat,
         ys := hundred Label, scs := hundred Complex,
         laplacian_down_1_list := map (\<lambda>c. Fn F_down_laplacian_matrix [c, Num 1]) (hundred Complex),
         laplacian_down_2_list := map (\<lambda>c. Fn F_down_laplacian_matrix [c, Num 2]) (hundred Complex),
         incidence1_t_list := map (\<lambda>c. Fn F_incidence_matrix [c, Num 1]) (hundred Complex),
         incidence2_t_list := map (\<lambda>c. Fn F_incidence_matrix [c, Num 2]) (hundred Complex) \<rparr>"

definition sym_hundred_dhgcn_env :: "(sym, nat, nat, nat) dhgcn_env" where
  "sym_hundred_dhgcn_env = sym_dhgcn_env \<lparr> x_0s := hundred Node_feat, ys := hundred Label \<rparr>"

text \<open>
  The two notebooks run from start to end on the small instance.
\<close>

definition sym_sca_run :: "error + (sym, nat, nat, nat) sca_env" where
  "sym_sca_run = run_cells (sca_cmps_notebook sym_libs) sym_sca_env"

definition sym_dhgcn_run :: "error + (sym, nat, nat, nat) dhgcn_env" where
  "sym_dhgcn_run = run_cells (dhgcn_notebook sym_libs) sym_dhgcn_env"

section \<open>Lemmas\<close>

lemma and_then_simps [simp]:
  "and_then (Inr a) f = f a"
  "and_then (Inl e) f = Inl e"
  by (simp_all add: and_then_def)

lemma forward_inputs_append [simp]:
  "forward_inputs gr (cs @ ds) = forward_inputs gr cs @ forward_inputs gr ds"
  by (induction gr cs rule: forward_inputs.induct) simp_all

subsection \<open>training loop\<close>

lemma train_sample_frame [simp]:
  "kept (train_sample L env xy) = kept env"
  "loaded (train_sample L env xy) = loaded env"
  "dhgcn_derived (train_sample L env xy) = dhgcn_derived env"
  "training (train_sample L env xy) = training env"
  "epoch_i (train_sample L env xy) = epoch_i env"
  "stdout (train_sample L env xy) = stdout env"
  by (simp_all add: train_sample_def Let_def kept_def loaded_def dhgcn_derived_def)

lemma keptD:
  "kept env' = kept env \<Longrightarrow>
     device env' = device env \<and> loss_fn env' = loss_fn env \<and> x_0_train env' = x_0_train env
     \<and> y_train env' = y_train env \<and> x_0_test env' = x_0_test env \<and> y_test env' = y_test env
     \<and> test_interval env' = test_interval env \<and> num_epochs env' = num_epochs env
     \<and> simplexes env' = simplexes env"
  by (simp add: kept_def)

lemma train_sample_net:
  "training env \<Longrightarrow>
   net_of (train_sample L env xy) = sgd_step L (device env) (loss_fn env) (net_of env) xy"
  by (simp add: train_sample_def net_of_def Let_def sample_loss_def as_input_def as_label_def)

lemma train_sample_epoch_loss:
  "training env \<Longrightarrow>
   epoch_loss (train_sample L env xy) =
     epoch_loss env @ [item L (sample_loss L (device env) (loss_fn env) True True (fst (net_of env)) xy)]"
  by (simp add: train_sample_def Let_def sample_loss_def as_input_def as_label_def net_of_def)

lemma train_sample_loss:
  "training env \<Longrightarrow>
   loss (train_sample L env xy) =
     Some (sample_loss L (device env) (loss_fn env) True True (fst (net_of env)) xy)"
  by (simp add: train_sample_def Let_def sample_loss_def as_input_def as_label_def net_of_def)

lemma train_sample_ops:
  "map op_of (calls (train_sample L env xy)) = map op_of (calls env) @ five_ops"
  by (simp add: train_sample_def Let_def five_ops_def)

lemma train_sample_inputs:
  "forward_inputs gr (calls (train_sample L env xy)) =
     forward_inputs gr (calls env) @ (if gr then [as_input L (device env) (fst xy)] else [])"
  by (simp add: train_sample_def Let_def as_input_def)

lemma foldl_train_sample_frame [simp]:
  "kept (foldl (train_sample L) env ps) = kept env"
  "loaded (foldl (train_sample L) env ps) = loaded env"
  "dhgcn_derived (foldl (train_sample L) env ps) = dhgcn_derived env"
  "training (foldl (train_sample L) env ps) = training env"
  "epoch_i (foldl (train_sample L) env ps) = epoch_i env"
  "stdout (foldl (train_sample L) env ps) = stdout env"
  by (induction ps arbitrary: env; simp)+

lemma foldl_train_sample_net:
  "training env \<Longrightarrow>
   net_of (foldl (train_sample L) env ps) = sgd_epoch L (device env) (loss_fn env) ps (net_of env)"
proof (induction ps arbitrary: env)
  case Nil
  then show ?case by (simp add: sgd_epoch_def)
next
  case (Cons xy ps)
  have "kept (train_sample L env xy) = kept env" by simp
  then have "device (train_sample L env xy) = device env" "loss_fn (train_sample L env xy) = loss_fn env"
    by (simp_all add: kept_def)
  with Cons show ?case
    by (simp add: sgd_epoch_def train_sample_net)
qed

lemma foldl_train_sample_epoch_loss:
  "training env \<Longrightarrow>
   epoch_loss (foldl (train_sample L) env ps) =
     epoch_loss env @ map (item L) (sgd_losses L (device env) (loss_fn env) (net_of env) ps)"
proof (induction ps arbitrary: env)
  case Nil
  then show ?case by simp
next
  case (Cons xy ps)
  have "kept (train_sample L env xy) = kept env" by simp
  then have "device (train_sample L env xy) = device env" "loss_fn (train_sample L env xy) = loss_fn env"
    by (simp_all add: kept_def)
  with Cons show ?case
    by (simp add: train_sample_net train_sample_epoch_loss)
qed

lemma foldl_train_sample_loss:
  "training env \<Longrightarrow>
   loss (foldl (train_sample L) env ps) =
     (if ps = [] then loss env
      else Some (last (sgd_losses L (device env) (loss_fn env) (net_of env) ps)))"
proof (induction ps arbitrary: env)
  case Nil
  then show ?case by simp
next
  case (Cons xy ps)
  have "kept (train_sample L env xy) = kept env" by simp
  then have "device (train_sample L env xy) = device env" "loss_fn (train_sample L env xy) = loss_fn env"
    by (simp_all add: kept_def)
  with Cons show ?case
    by (cases ps) (simp_all add: train_sample_net train_sample_loss)
qed

lemma foldl_train_sample_ops:
  "map op_of (calls (foldl (train_sample L) env ps)) =
     map op_of (calls env) @ concat (replicate (length ps) five_ops)"
  by (induction ps arbitrary: env) (simp_all add: train_sample_ops)

lemma foldl_train_sample_inputs:
  "forward_inputs gr (calls (foldl (train_sample L) env ps)) =
     forward_inputs gr (calls env) @ (if gr then map (\<lambda>xy. as_input L (device env) (fst xy)) ps else [])"
proof (induction ps arbitrary: env)
  case Nil
  then show ?case by simp
next
  case (Cons xy ps)
  have "kept (train_sample L env xy) = kept env" by simp
  then have "device (train_sample L env xy) = device env"
    by (simp_all add: kept_def)
  with Cons show ?case
    by (simp add: train_sample_inputs)
qed

lemma length_sgd_losses [simp]: "length (sgd_losses L dev lf s ps) = length ps"
  by (induction ps arbitrary: s) simp_all


subsection \<open>evaluation loop\<close>

lemma test_sample_frame [simp]:
  "kept (test_sample L env xy) = kept env"
  "loaded (test_sample L env xy) = loaded env"
  "dhgcn_derived (test_sample L env xy) = dhgcn_derived env"
  "net_of (test_sample L env xy) = net_of env"
  "training (test_sample L env xy) = training env"
  "epoch_i (test_sample L env xy) = epoch_i env"
  "epoch_loss (test_sample L env xy) = epoch_loss env"
  "stdout (test_sample L env xy) = stdout env"
  by (simp_all add: test_sample_def Let_def kept_def loaded_def dhgcn_derived_def net_of_def)

lemma test_sample_loss:
  "loss (test_sample L env xy) =
     Some (sample_loss L (device env) (loss_fn env) (training env) False (fst (net_of env)) xy)"
  by (simp add: test_sample_def Let_def sample_loss_def as_input_def as_label_def net_of_def)

lemma test_sample_ops:
  "map op_of (calls (test_sample L env xy)) = map op_of (calls env) @ [Op_forward, Op_loss_fn]"
  by (simp add: test_sample_def Let_def)

lemma test_sample_inputs:
  "forward_inputs gr (calls (test_sample L env xy)) =
     forward_inputs gr (calls env) @ (if gr then [] else [as_input L (device env) (fst xy)])"
  by (simp add: test_sample_def Let_def as_input_def)

lemma foldl_test_sample_frame [simp]:
  "kept (foldl (test_sample L) env ps) = kept env"
  "loaded (foldl (test_sample L) env ps) = loaded env"
  "dhgcn_derived (foldl (test_sample L) env ps) = dhgcn_derived env"
  "net_of (foldl (test_sample L) env ps) = net_of env"
  "training (foldl (test_sample L) env ps) = training env"
  "epoch_i (foldl (test_sample L) env ps) = epoch_i env"
  "epoch_loss (foldl (test_sample L) env ps) = epoch_loss env"
  "stdout (foldl (test_sample L) env ps) = stdout env"
  by (induction ps arbitrary: env; simp)+

lemma foldl_test_sample_loss:
  "loss (foldl (test_sample L) env ps) =
     (if ps = [] then loss env
      else Some (sample_loss L (device env) (loss_fn env) (training env) False (fst (net_of env)) (last ps)))"
proof (induction ps arbitrary: env)
  case Nil
  then show ?case by simp
next
  case (Cons xy ps)
  have "kept (test_sample L env xy) = kept env" by simp
  then have "device (test_sample L env xy) = device env" "loss_fn (test_sample L env xy) = loss_fn env"
    by (simp_all add: kept_def)
  with Cons show ?case
    by (simp add: test_sample_loss)
qed

lemma foldl_test_sample_ops:
  "map op_of (calls (foldl (test_sample L) env ps)) =
     map op_of (calls env) @ concat (replicate (length ps) [Op_forward, Op_loss_fn])"
  by (induction ps arbitrary: env) (simp_all add: test_sample_ops)

lemma foldl_test_sample_inputs:
  "forward_inputs gr (calls (foldl (test_sample L) env ps)) =
     forward_inputs gr (calls env) @ (if gr then [] else map (\<lambda>xy. as_input L (device env) (fst xy)) ps)"
proof (induction ps arbitrary: env)
  case Nil
  then show ?case by simp
next
  case (Cons xy ps)
  have "kept (test_sample L env xy) = kept env" by simp
  then have "device (test_sample L env xy) = device env"
    by (simp_all add: kept_def)
  with Cons show ?case
    by (simp add: test_sample_inputs)
qed

lemma foldl_test_sample_calls_prefix:
  "\<exists>cs. calls (foldl (test_sample L) env ps) = calls env @ cs
     \<and> (\<forall>c \<in> set cs. op_of c = Op_forward \<or> op_of c = Op_loss_fn)
     \<and> forward_inputs True cs = []"
proof (induction ps arbitrary: env)
  case Nil
  then show ?case by simp
next
  case (Cons xy ps)
  obtain cs where cs: "calls (foldl (test_sample L) (test_sample L env xy) ps) = calls (test_sample L env xy) @ cs"
    "\<forall>c \<in> set cs. op_of c = Op_forward \<or> op_of c = Op_loss_fn" "forward_inputs True cs = []"
    using Cons.IH by blast
  obtain ds where ds: "calls (test_sample L env xy) = calls env @ ds"
     "\<forall>c \<in> set ds. op_of c = Op_forward \<or> op_of c = Op_loss_fn" "forward_inputs True ds = []"
    by (simp add: test_sample_def Let_def)
  show ?case
    by (rule exI [of _ "ds @ cs"]) (use cs ds in auto)
qed


subsection \<open>one epoch\<close>

lemma train_phase_frame [simp]:
  "kept (train_phase L env) = kept env"
  "loaded (train_phase L env) = loaded env"
  "dhgcn_derived (train_phase L env) = dhgcn_derived env"
  "epoch_i (train_phase L env) = epoch_i env"
  "training (train_phase L env)"
proof -
  let ?e = "env\<lparr>epoch_loss := [], training := True, calls := calls env @ [Call_train]\<rparr>"
  have e: "train_phase L env =
      (foldl (train_sample L) ?e (zip (x_0_train env) (y_train env)))
        \<lparr>stdout := stdout (foldl (train_sample L) ?e (zip (x_0_train env) (y_train env)))
           @ [Print_epoch (epoch_i (foldl (train_sample L) ?e (zip (x_0_train env) (y_train env))))
               (np_mean L (epoch_loss (foldl (train_sample L) ?e (zip (x_0_train env) (y_train env)))))]\<rparr>"
    by (simp add: train_phase_def Let_def)
  have k: "kept (foldl (train_sample L) ?e (zip (x_0_train env) (y_train env))) = kept ?e"
     "loaded (foldl (train_sample L) ?e (zip (x_0_train env) (y_train env))) = loaded ?e"
     "dhgcn_derived (foldl (train_sample L) ?e (zip (x_0_train env) (y_train env))) = dhgcn_derived ?e"
     "epoch_i (foldl (train_sample L) ?e (zip (x_0_train env) (y_train env))) = epoch_i ?e"
     "training (foldl (train_sample L) ?e (zip (x_0_train env) (y_train env))) = training ?e"
    by simp_all
  show "kept (train_phase L env) = kept env"
    using k(1) by (simp add: e kept_def)
  show "loaded (train_phase L env) = loaded env"
    using k(2) by (simp add: e loaded_def)
  show "dhgcn_derived (train_phase L env) = dhgcn_derived env"
    using k(3) by (simp add: e dhgcn_derived_def)
  show "epoch_i (train_phase L env) = epoch_i env"
    using k(4) by (simp add: e)
  show "training (train_phase L env)"
    using k(5) by (simp add: e)
qed

lemma train_phase_net:
  "net_of (train_phase L env) =
     sgd_epoch L (device env) (loss_fn env) (zip (x_0_train env) (y_train env)) (net_of env)"
proof -
  let ?e = "env\<lparr>epoch_loss := [], training := True, calls := calls env @ [Call_train]\<rparr>"
  have "net_of (train_phase L env) = net_of (foldl (train_sample L) ?e (zip (x_0_train env) (y_train env)))"
    by (simp add: train_phase_def Let_def net_of_def)
  also have "\<dots> = sgd_epoch L (device ?e) (loss_fn ?e) (zip (x_0_train env) (y_train env)) (net_of ?e)"
    by (rule foldl_train_sample_net) simp
  finally show ?thesis by (simp add: net_of_def)
qed

lemma train_phase_epoch_loss:
  "epoch_loss (train_phase L env) =
     map (item L) (sgd_losses L (device env) (loss_fn env) (net_of env) (zip (x_0_train env) (y_train env)))"
proof -
  let ?e = "env\<lparr>epoch_loss := [], training := True, calls := calls env @ [Call_train]\<rparr>"
  have "epoch_loss (train_phase L env) = epoch_loss (foldl (train_sample L) ?e (zip (x_0_train env) (y_train env)))"
    by (simp add: train_phase_def Let_def)
  also have "\<dots> = epoch_loss ?e @ map (item L) (sgd_losses L (device ?e) (loss_fn ?e) (net_of ?e) (zip (x_0_train env) (y_train env)))"
    by (rule foldl_train_sample_epoch_loss) simp
  finally show ?thesis by (simp add: net_of_def)
qed

lemma train_phase_stdout:
  "stdout (train_phase L env) =
     stdout env @ [Print_epoch (epoch_i env) (np_mean L (epoch_loss (train_phase L env)))]"
  by (simp add: train_phase_def Let_def)

lemma train_phase_loss:
  "loss (train_phase L env) =
     (if zip (x_0_train env) (y_train env) = [] then loss env
      else Some (last (sgd_losses L (device env) (loss_fn env) (net_of env) (zip (x_0_train env) (y_train env)))))"
proof -
  let ?e = "env\<lparr>epoch_loss := [], training := True, calls := calls env @ [Call_train]\<rparr>"
  have "loss (train_phase L env) = loss (foldl (train_sample L) ?e (zip (x_0_train env) (y_train env)))"
    by (simp add: train_phase_def Let_def)
  also have "\<dots> = (if zip (x_0_train env) (y_train env) = [] then loss ?e
      else Some (last (sgd_losses L (device ?e) (loss_fn ?e) (net_of ?e) (zip (x_0_train env) (y_train env)))))"
    by (rule foldl_train_sample_loss) simp
  finally show ?thesis by (simp add: net_of_def)
qed

lemma train_phase_ops:
  "map op_of (calls (train_phase L env)) =
     map op_of (calls env) @ Op_train # concat (replicate (length (zip (x_0_train env) (y_train env))) five_ops)"
  by (simp add: train_phase_def Let_def foldl_train_sample_ops)

lemma train_phase_inputs:
  "forward_inputs True (calls (train_phase L env)) =
     forward_inputs True (calls env) @ map (\<lambda>xy. as_input L (device env) (fst xy)) (zip (x_0_train env) (y_train env))"
  by (simp add: train_phase_def Let_def foldl_train_sample_inputs)

lemma test_branch_Inr:
  assumes "test_branch L env = Inr env'"
  shows "kept env' = kept env" "loaded env' = loaded env" "dhgcn_derived env' = dhgcn_derived env"
    "net_of env' = net_of env" "training env' = training env" "epoch_i env' = epoch_i env"
    "epoch_loss env' = epoch_loss env"
    "map op_of (calls env') = map op_of (calls env)
       @ concat (replicate (length (zip (x_0_test env) (y_test env))) [Op_forward, Op_loss_fn])"
    "forward_inputs True (calls env') = forward_inputs True (calls env)"
proof -
  let ?e = "foldl (test_sample L) env (zip (x_0_test env) (y_test env))"
  obtain l where l: "loss ?e = Some l" and e: "env' = ?e\<lparr>stdout := stdout ?e @ [Print_test l]\<rparr>"
    using assms by (auto simp add: test_branch_def Let_def split: option.splits)
  have k: "kept ?e = kept env" "loaded ?e = loaded env" "dhgcn_derived ?e = dhgcn_derived env"
    "net_of ?e = net_of env"
    by simp_all
  show "kept env' = kept env" using k(1) by (simp add: e kept_def)
  show "loaded env' = loaded env" using k(2) by (simp add: e loaded_def)
  show "dhgcn_derived env' = dhgcn_derived env" using k(3) by (simp add: e dhgcn_derived_def)
  show "net_of env' = net_of env" using k(4) by (simp add: e net_of_def)
  show "training env' = training env" by (simp add: e)
  show "epoch_i env' = epoch_i env" by (simp add: e)
  show "epoch_loss env' = epoch_loss env" by (simp add: e)
  show "map op_of (calls env') = map op_of (calls env)
       @ concat (replicate (length (zip (x_0_test env) (y_test env))) [Op_forward, Op_loss_fn])"
    by (simp add: e foldl_test_sample_ops)
  show "forward_inputs True (calls env') = forward_inputs True (calls env)"
    by (simp add: e foldl_test_sample_inputs)
qed

lemma test_branch_ok:
  assumes "zip (x_0_test env) (y_test env) \<noteq> [] \<or> loss env \<noteq> None"
  shows "\<exists>env'. test_branch L env = Inr env'
     \<and> stdout env' = stdout env @
         [Print_test (if zip (x_0_test env) (y_test env) = [] then the (loss env)
            else sample_loss L (device env) (loss_fn env) (training env) False (fst (net_of env))
                   (last (zip (x_0_test env) (y_test env))))]"
  using assms by (auto simp add: test_branch_def Let_def foldl_test_sample_loss)

lemma epoch_ok:
  assumes "test_interval env = 1" "zip (x_0_train env) (y_train env) \<noteq> []"
  shows "\<exists>env'. epoch L env i = Inr env'
     \<and> kept env' = kept env \<and> loaded env' = loaded env \<and> dhgcn_derived env' = dhgcn_derived env
     \<and> epoch_i env' = i
     \<and> net_of env' = sgd_epoch L (device env) (loss_fn env) (zip (x_0_train env) (y_train env)) (net_of env)
     \<and> map op_of (calls env') = map op_of (calls env)
          @ epoch_ops (length (zip (x_0_train env) (y_train env))) (length (zip (x_0_test env) (y_test env)))
     \<and> forward_inputs True (calls env') = forward_inputs True (calls env)
          @ map (\<lambda>xy. as_input L (device env) (fst xy)) (zip (x_0_train env) (y_train env))"
proof -
  let ?e0 = "env\<lparr>epoch_i := i\<rparr>"
  let ?e1 = "train_phase L ?e0"
  have k0: "kept ?e0 = kept env" "loaded ?e0 = loaded env" "dhgcn_derived ?e0 = dhgcn_derived env"
    "net_of ?e0 = net_of env" "calls ?e0 = calls env"
    by (simp_all add: kept_def loaded_def dhgcn_derived_def net_of_def)
  have k1: "kept ?e1 = kept env" "loaded ?e1 = loaded env" "dhgcn_derived ?e1 = dhgcn_derived env"
    using k0 by simp_all
  note d0 = keptD [OF k0(1)] and d1 = keptD [OF k1(1)]
  have run: "epoch L env i = test_branch L ?e1"
    using d1 assms(1) by (simp add: epoch_def Let_def)
  have "loss ?e1 \<noteq> None"
    using assms(2) d0 by (simp add: train_phase_loss)
  then obtain env' where env': "test_branch L ?e1 = Inr env'"
    using test_branch_ok [of ?e1 L] by blast
  note t = test_branch_Inr [OF env']
  have "net_of env' = sgd_epoch L (device env) (loss_fn env) (zip (x_0_train env) (y_train env)) (net_of env)"
    using t(4) d0 k0(4) by (simp add: train_phase_net)
  moreover have "map op_of (calls env') = map op_of (calls env)
          @ epoch_ops (length (zip (x_0_train env) (y_train env))) (length (zip (x_0_test env) (y_test env)))"
    using t(8) d0 d1 k0(5) by (simp add: train_phase_ops epoch_ops_def)
  moreover have "forward_inputs True (calls env') = forward_inputs True (calls env)
          @ map (\<lambda>xy. as_input L (device env) (fst xy)) (zip (x_0_train env) (y_train env))"
    using t(9) d0 k0(5) by (simp add: train_phase_inputs)
  moreover have "epoch_i env' = i"
    using t(6) by simp
  ultimately show ?thesis
    using run env' t(1,2,3) k1 by simp
qed


subsection \<open>the epoch loop\<close>

lemma epochs_ok:
  assumes "test_interval env = 1" "zip (x_0_train env) (y_train env) \<noteq> []"
  shows "\<exists>env'. epochs L env ks = Inr env'
     \<and> kept env' = kept env \<and> loaded env' = loaded env \<and> dhgcn_derived env' = dhgcn_derived env
     \<and> epoch_i env' = (if ks = [] then epoch_i env else last ks)
     \<and> net_of env' =
         (sgd_epoch L (device env) (loss_fn env) (zip (x_0_train env) (y_train env)) ^^ length ks) (net_of env)
     \<and> map op_of (calls env') = map op_of (calls env)
          @ concat (replicate (length ks)
              (epoch_ops (length (zip (x_0_train env) (y_train env))) (length (zip (x_0_test env) (y_test env)))))
     \<and> forward_inputs True (calls env') = forward_inputs True (calls env)
          @ concat (replicate (length ks)
              (map (\<lambda>xy. as_input L (device env) (fst xy)) (zip (x_0_train env) (y_train env))))"
  using assms
proof (induction ks arbitrary: env)
  case Nil
  then show ?case by simp
next
  case (Cons k ks)
  obtain e1 where e1: "epoch L env k = Inr e1" "kept e1 = kept env" "loaded e1 = loaded env"
      "dhgcn_derived e1 = dhgcn_derived env" "epoch_i e1 = k"
      "net_of e1 = sgd_epoch L (device env) (loss_fn env) (zip (x_0_train env) (y_train env)) (net_of env)"
      "map op_of (calls e1) = map op_of (calls env)
          @ epoch_ops (length (zip (x_0_train env) (y_train env))) (length (zip (x_0_test env) (y_test env)))"
      "forward_inputs True (calls e1) = forward_inputs True (calls env)
          @ map (\<lambda>xy. as_input L (device env) (fst xy)) (zip (x_0_train env) (y_train env))"
    using epoch_ok [OF Cons.prems, of L k] by blast
  note d = keptD [OF e1(2)]
  have p: "test_interval e1 = 1" "zip (x_0_train e1) (y_train e1) \<noteq> []"
    using d Cons.prems by simp_all
  obtain env' where env': "epochs L e1 ks = Inr env'" "kept env' = kept e1" "loaded env' = loaded e1"
      "dhgcn_derived env' = dhgcn_derived e1" "epoch_i env' = (if ks = [] then epoch_i e1 else last ks)"
      "net_of env' =
         (sgd_epoch L (device e1) (loss_fn e1) (zip (x_0_train e1) (y_train e1)) ^^ length ks) (net_of e1)"
      "map op_of (calls env') = map op_of (calls e1)
          @ concat (replicate (length ks)
              (epoch_ops (length (zip (x_0_train e1) (y_train e1))) (length (zip (x_0_test e1) (y_test e1)))))"
      "forward_inputs True (calls env') = forward_inputs True (calls e1)
          @ concat (replicate (length ks)
              (map (\<lambda>xy. as_input L (device e1) (fst xy)) (zip (x_0_train e1) (y_train e1))))"
    using Cons.IH [OF p] by blast
  have "epochs L env (k # ks) = Inr env'"
    using e1(1) env'(1) by simp
  moreover have "net_of env' =
         (sgd_epoch L (device env) (loss_fn env) (zip (x_0_train env) (y_train env)) ^^ length (k # ks)) (net_of env)"
    using env'(6) e1(6) d by (simp add: funpow_swap1)
  moreover have "map op_of (calls env') = map op_of (calls env)
          @ concat (replicate (length (k # ks))
              (epoch_ops (length (zip (x_0_train env) (y_train env))) (length (zip (x_0_test env) (y_test env)))))"
    using env'(7) e1(7) d by simp
  moreover have "forward_inputs True (calls env') = forward_inputs True (calls env)
          @ concat (replicate (length (k # ks))
              (map (\<lambda>xy. as_input L (device env) (fst xy)) (zip (x_0_train env) (y_train env))))"
    using env'(8) e1(8) d by simp
  moreover have "epoch_i env' = (if k # ks = [] then epoch_i env else last (k # ks))"
    using env'(5) e1(5) by simp
  ultimately show ?case
    using env'(2,3,4) e1(2,3,4) by simp
qed

lemma dhgcn_cell_train_unfold:
  "dhgcn_cell_train L env = epochs L (env\<lparr>test_interval := 1, num_epochs := 5\<rparr>) [1, 2, 3, 4, 5]"
proof -
  have "[1 ..< 6] = [1, 2, 3, 4, 5::nat]"
    by code_simp
  then show ?thesis
    by (simp add: dhgcn_cell_train_def Let_def del: upt_Suc)
qed

lemma and_then_eq_Inr:
  "and_then r f = Inr b \<longleftrightarrow> (\<exists>a. r = Inr a \<and> f a = Inr b)"
  by (cases r) simp_all

subsection \<open>the derivation loop and the split\<close>

lemma foldl_sca_neighborhoods:
  "foldl (sca_neighborhoods L) env cs =
     env\<lparr>laplacian_down_1_list :=
           laplacian_down_1_list env @ map (\<lambda>sc. sparse L (down_laplacian_matrix L sc 1)) cs,
         laplacian_down_2_list :=
           laplacian_down_2_list env @ map (\<lambda>sc. sparse L (down_laplacian_matrix L sc 2)) cs,
         incidence1_t_list :=
           incidence1_t_list env @ map (\<lambda>sc. sparse L (transpose_T L (incidence_matrix L sc 1 None))) cs,
         incidence2_t_list :=
           incidence2_t_list env @ map (\<lambda>sc. sparse L (transpose_T L (incidence_matrix L sc 2 None))) cs\<rparr>"
  by (induction cs arbitrary: env) (simp_all add: sca_neighborhoods_def sparse_def Let_def)

lemma sca_cell_neighborhoods_eq:
  "sca_cell_neighborhoods L env =
     Inr (env\<lparr>laplacian_down_1_list := map (\<lambda>sc. sparse L (down_laplacian_matrix L sc 1)) (scs env),
              laplacian_down_2_list := map (\<lambda>sc. sparse L (down_laplacian_matrix L sc 2)) (scs env),
              incidence1_t_list := map (\<lambda>sc. sparse L (transpose_T L (incidence_matrix L sc 1 None))) (scs env),
              incidence2_t_list := map (\<lambda>sc. sparse L (transpose_T L (incidence_matrix L sc 2 None))) (scs env)\<rparr>)"
  by (simp add: sca_cell_neighborhoods_def Let_def foldl_sca_neighborhoods)

lemma train_test_split_100:
  "length xs = 100 \<Longrightarrow> train_test_split xs (1 / 5) = Inr (take 80 xs, drop 80 xs)"
  by (simp add: train_test_split_def Let_def)

lemma sca_cell_split_100:
  assumes "length (x_0s env) = 100" "length (x_1s env) = 100" "length (x_2s env) = 100"
    "length (laplacian_down_1_list env) = 100" "length (laplacian_down_2_list env) = 100"
    "length (incidence1_t_list env) = 100" "length (incidence2_t_list env) = 100"
    "length (ys env) = 100"
  shows "sca_cell_split env =
     Inr (env\<lparr>test_size := 2 / 10,
              x_0_train := take 80 (x_0s env), x_0_test := drop 80 (x_0s env),
              x_1_train := take 80 (x_1s env), x_1_test := drop 80 (x_1s env),
              x_2_train := take 80 (x_2s env), x_2_test := drop 80 (x_2s env),
              laplacian_down_1_train := take 80 (laplacian_down_1_list env),
              laplacian_down_1_test := drop 80 (laplacian_down_1_list env),
              laplacian_down_2_train := take 80 (laplacian_down_2_list env),
              laplacian_down_2_test := drop 80 (laplacian_down_2_list env),
              incidence1_t_train := take 80 (incidence1_t_list env),
              incidence1_t_test := drop 80 (incidence1_t_list env),
              incidence2_t_train := take 80 (incidence2_t_list env),
              incidence2_t_test := drop 80 (incidence2_t_list env),
              y_train := take 80 (ys env), y_test := drop 80 (ys env)\<rparr>)"
  using assms by (simp add: sca_cell_split_def Let_def train_test_split_100)

lemma dhgcn_cell_split_100:
  assumes "length (x_0s env) = 100" "length (ys env) = 100"
  shows "dhgcn_cell_split env =
     Inr (env\<lparr>test_size := 2 / 10,
              x_0_train := take 80 (x_0s env), x_0_test := drop 80 (x_0s env),
              y_train := take 80 (ys env), y_test := drop 80 (ys env)\<rparr>)"
  using assms by (simp add: dhgcn_cell_split_def Let_def train_test_split_100)

lemma length_hundred [simp]: "length (hundred k) = 100"
  by (simp add: hundred_def)

lemma nth_hundred [simp]: "i < 100 \<Longrightarrow> hundred k ! i = Sample k i"
  by (simp add: hundred_def del: upt_Suc)

subsection \<open>frames of the cells\<close>

lemma run_cells_append:
  "run_cells (cs @ ds) env = and_then (run_cells cs env) (run_cells ds)"
  by (induction cs arbitrary: env) (simp_all split: sum.splits)

lemma run_cells_frame:
  assumes "\<And>c e e'. c \<in> set cs \<Longrightarrow> c e = Inr e' \<Longrightarrow> f e' = f e"
    and "run_cells cs env = Inr env'"
  shows "f env' = f env"
  using assms
proof (induction cs arbitrary: env)
  case Nil
  then show ?case by simp
next
  case (Cons c cs)
  from Cons.prems(2) obtain e1 where e1: "c env = Inr e1" "run_cells cs e1 = Inr env'"
    by (auto split: sum.splits)
  have "f e1 = f env"
    using Cons.prems(1) [of c env e1] e1(1) by simp
  moreover have "f env' = f e1"
  proof (rule Cons.IH [OF _ e1(2)])
    fix c' e e'
    assume "c' \<in> set cs" "c' e = Inr e'"
    then show "f e' = f e"
      using Cons.prems(1) [of c' e e'] by simp
  qed
  ultimately show ?case by simp
qed

lemma run_cells_between:
  assumes "\<And>c e e'. c \<in> set (drop n cs) \<Longrightarrow> c e = Inr e' \<Longrightarrow> f e' = f e"
    and "n \<le> j" "j \<le> k"
    and "run_cells (take j cs) env = Inr ej" "run_cells (take k cs) env = Inr ek"
  shows "f ek = f ej"
proof -
  have "take j (take k cs) @ drop j (take k cs) = take k cs"
    by (rule append_take_drop_id)
  then have "take k cs = take j cs @ drop j (take k cs)"
    using assms(3) by (simp add: min_def)
  then have "run_cells (take k cs) env = and_then (run_cells (take j cs) env) (run_cells (drop j (take k cs)))"
    using run_cells_append [of "take j cs" "drop j (take k cs)" env] by simp
  then have r: "run_cells (drop j (take k cs)) ej = Inr ek"
    using assms(4,5) by simp
  have "set (drop j (take k cs)) \<subseteq> set (drop j cs)"
    by (simp add: drop_take set_take_subset)
  moreover have "set (drop j cs) \<subseteq> set (drop n cs)"
    using assms(2) by (rule set_drop_subset_set_drop)
  ultimately have "\<And>c e e'. c \<in> set (drop j (take k cs)) \<Longrightarrow> c e = Inr e' \<Longrightarrow> f e' = f e"
    using assms(1) by blast
  then show ?thesis
    using run_cells_frame [of "drop j (take k cs)" f ej ek] r by blast
qed

lemma print_cells_frame:
  "print_cells L kind xs env = Inr env' \<Longrightarrow> \<exists>out. env' = env\<lparr>stdout := out\<rparr>"
  by (auto simp add: print_cells_def and_then_eq_Inr)

lemma cell_report_frame:
  assumes "cell_report L env = Inr env'"
  shows "\<exists>out. env' = env\<lparr>i_complex := 6, stdout := out\<rparr>"
proof -
  from assms obtain e2 e3 where
    a: "print_cells L ''nodes'' (x_0s (env\<lparr>i_complex := 6\<rparr>)) (env\<lparr>i_complex := 6\<rparr>) = Inr e2"
    and b: "print_cells L ''edges'' (x_1s e2) e2 = Inr e3"
    and c: "print_cells L ''faces'' (x_2s e3) e3 = Inr env'"
    by (auto simp add: cell_report_def Let_def and_then_eq_Inr)
  obtain o2 where "e2 = env\<lparr>i_complex := 6, stdout := o2\<rparr>"
    using print_cells_frame [OF a] by auto
  moreover obtain o3 where "e3 = e2\<lparr>stdout := o3\<rparr>"
    using print_cells_frame [OF b] by auto
  moreover obtain o4 where "env' = e3\<lparr>stdout := o4\<rparr>"
    using print_cells_frame [OF c] by auto
  ultimately show ?thesis
    by auto
qed


lemma cell_report_keeps:
  "cell_report L env = Inr env' \<Longrightarrow> loaded env' = loaded env"
  using cell_report_frame [of L env env'] by (auto simp add: loaded_def)

lemma cell_report_keeps_sca:
  "cell_report L env = Inr env' \<Longrightarrow> sca_derived env' = sca_derived env"
  using cell_report_frame [of L env env'] by (auto simp add: sca_derived_def)

lemma cell_report_keeps_dhgcn:
  "cell_report L env = Inr env' \<Longrightarrow> dhgcn_derived env' = dhgcn_derived env"
  using cell_report_frame [of L env env'] by (auto simp add: dhgcn_derived_def)

lemma sca_cell_neighborhoods_keeps:
  "sca_cell_neighborhoods L env = Inr env' \<Longrightarrow> loaded env' = loaded env"
  by (auto simp add: sca_cell_neighborhoods_eq loaded_def)

lemma sca_cell_channels_keeps:
  "sca_cell_channels L env = Inr env' \<Longrightarrow> loaded env' = loaded env \<and> sca_derived env' = sca_derived env"
  by (auto simp add: sca_cell_channels_def and_then_eq_Inr loaded_def sca_derived_def)

lemma sca_cell_split_keeps:
  "sca_cell_split env = Inr env' \<Longrightarrow> loaded env' = loaded env \<and> sca_derived env' = sca_derived env"
  by (auto simp add: sca_cell_split_def Let_def and_then_eq_Inr loaded_def sca_derived_def)

lemma sca_cell_model_keeps:
  "sca_cell_model L env = Inr env' \<Longrightarrow> loaded env' = loaded env \<and> sca_derived env' = sca_derived env"
  by (auto simp add: sca_cell_model_def Let_def loaded_def sca_derived_def)

lemma foldl_dhgcn_lift:
  "foldl (dhgcn_lift L) env cs =
     env\<lparr>incidence_1_list :=
           incidence_1_list env @ map (\<lambda>c. sparse L (incidence_matrix L c 1 (Some False))) cs,
         hg_list := hg_list env @ map (to_hypergraph L) cs\<rparr>"
  by (induction cs arbitrary: env) (simp_all add: dhgcn_lift_def sparse_def Let_def)

lemma dhgcn_cell_lift_eq:
  "dhgcn_cell_lift L env =
     Inr (env\<lparr>hg_list := map (to_hypergraph L) (simplexes env),
              incidence_1_list := map (\<lambda>c. sparse L (incidence_matrix L c 1 (Some False))) (simplexes env)\<rparr>)"
  by (simp add: dhgcn_cell_lift_def Let_def foldl_dhgcn_lift)

lemma dhgcn_cell_shapes_keeps:
  "dhgcn_cell_shapes env = Inr env' \<Longrightarrow> env' = env"
  by (auto simp add: dhgcn_cell_shapes_def and_then_eq_Inr)

lemma dhgcn_cell_lift_keeps:
  "dhgcn_cell_lift L env = Inr env' \<Longrightarrow> loaded env' = loaded env"
  by (auto simp add: dhgcn_cell_lift_eq loaded_def)

lemma dhgcn_cell_incidence_shape_keeps:
  "dhgcn_cell_incidence_shape L env = Inr env' \<Longrightarrow>
     loaded env' = loaded env \<and> dhgcn_derived env' = dhgcn_derived env"
  by (auto simp add: dhgcn_cell_incidence_shape_def Let_def and_then_eq_Inr loaded_def dhgcn_derived_def)

lemma dhgcn_cell_model_keeps:
  "dhgcn_cell_model L env = Inr env' \<Longrightarrow>
     loaded env' = loaded env \<and> dhgcn_derived env' = dhgcn_derived env"
  by (auto simp add: dhgcn_cell_model_def Let_def and_then_eq_Inr loaded_def dhgcn_derived_def)

lemma dhgcn_cell_optimizer_keeps:
  "dhgcn_cell_optimizer L env = Inr env' \<Longrightarrow>
     loaded env' = loaded env \<and> dhgcn_derived env' = dhgcn_derived env"
  by (auto simp add: dhgcn_cell_optimizer_def Let_def loaded_def dhgcn_derived_def)

lemma dhgcn_cell_split_keeps:
  "dhgcn_cell_split env = Inr env' \<Longrightarrow>
     loaded env' = loaded env \<and> dhgcn_derived env' = dhgcn_derived env"
  by (auto simp add: dhgcn_cell_split_def Let_def and_then_eq_Inr loaded_def dhgcn_derived_def)

lemma epoch_keeps:
  assumes "epoch L env i = Inr env'"
  shows "loaded env' = loaded env \<and> dhgcn_derived env' = dhgcn_derived env"
proof -
  let ?e0 = "env\<lparr>epoch_i := i\<rparr>"
  let ?e1 = "train_phase L ?e0"
  have "loaded ?e0 = loaded env" "dhgcn_derived ?e0 = dhgcn_derived env"
    by (simp_all add: loaded_def dhgcn_derived_def)
  then have k: "loaded ?e1 = loaded env" "dhgcn_derived ?e1 = dhgcn_derived env"
    by simp_all
  from assms have "env' = ?e1 \<or> test_branch L ?e1 = Inr env'"
    by (auto simp add: epoch_def Let_def split: if_splits)
  then show ?thesis
  proof
    assume "env' = ?e1"
    then show ?thesis using k by simp
  next
    assume t: "test_branch L ?e1 = Inr env'"
    show ?thesis
      using test_branch_Inr(2,3) [OF t] k by simp
  qed
qed

lemma epochs_keeps:
  "epochs L env ks = Inr env' \<Longrightarrow> loaded env' = loaded env \<and> dhgcn_derived env' = dhgcn_derived env"
proof (induction ks arbitrary: env)
  case Nil
  then show ?case by simp
next
  case (Cons k ks)
  from Cons.prems obtain e1 where e1: "epoch L env k = Inr e1" "epochs L e1 ks = Inr env'"
    by (auto split: sum.splits)
  show ?case
    using epoch_keeps [OF e1(1)] Cons.IH [OF e1(2)] by simp
qed

lemma dhgcn_cell_train_keeps:
  assumes "dhgcn_cell_train L env = Inr env'"
  shows "loaded env' = loaded env \<and> dhgcn_derived env' = dhgcn_derived env"
proof -
  have "loaded (env\<lparr>test_interval := 1, num_epochs := 5\<rparr>) = loaded env"
    "dhgcn_derived (env\<lparr>test_interval := 1, num_epochs := 5\<rparr>) = dhgcn_derived env"
    by (simp_all add: loaded_def dhgcn_derived_def)
  then show ?thesis
    using epochs_keeps [of L "env\<lparr>test_interval := 1, num_epochs := 5\<rparr>" "[1, 2, 3, 4, 5]" env'] assms
    by (simp add: dhgcn_cell_train_unfold)
qed

lemma sca_later_cells_keep_loaded:
  assumes "c \<in> set (drop 2 (sca_cmps_notebook L))" "c e = Inr e'"
  shows "loaded e' = loaded e"
proof -
  from assms(1) have "c = cell_report L \<or> c = sca_cell_neighborhoods L \<or> c = sca_cell_channels L
      \<or> c = sca_cell_split \<or> c = sca_cell_model L"
    by (simp add: sca_cmps_notebook_def)
  then show ?thesis
    using assms(2) by (auto dest: cell_report_keeps sca_cell_neighborhoods_keeps sca_cell_channels_keeps sca_cell_split_keeps sca_cell_model_keeps)
qed

lemma sca_later_cells_keep_derived:
  assumes "c \<in> set (drop 4 (sca_cmps_notebook L))" "c e = Inr e'"
  shows "sca_derived e' = sca_derived e"
proof -
  from assms(1) have "c = sca_cell_channels L \<or> c = sca_cell_split \<or> c = sca_cell_model L"
    by (simp add: sca_cmps_notebook_def)
  then show ?thesis
    using assms(2) by (auto dest: sca_cell_channels_keeps sca_cell_split_keeps sca_cell_model_keeps)
qed

lemma dhgcn_later_cells_keep_loaded:
  assumes "c \<in> set (drop 2 (dhgcn_notebook L))" "c e = Inr e'"
  shows "loaded e' = loaded e"
proof -
  from assms(1) have "c = dhgcn_cell_shapes \<or> c = cell_report L \<or> c = dhgcn_cell_lift L
      \<or> c = dhgcn_cell_incidence_shape L \<or> c = dhgcn_cell_model L \<or> c = dhgcn_cell_optimizer L
      \<or> c = dhgcn_cell_split \<or> c = dhgcn_cell_train L"
    by (simp add: dhgcn_notebook_def)
  then show ?thesis
    using assms(2) by (auto dest: dhgcn_cell_shapes_keeps cell_report_keeps dhgcn_cell_lift_keeps dhgcn_cell_incidence_shape_keeps dhgcn_cell_model_keeps dhgcn_cell_optimizer_keeps dhgcn_cell_split_keeps dhgcn_cell_train_keeps)
qed

lemma dhgcn_later_cells_keep_derived:
  assumes "c \<in> set (drop 5 (dhgcn_notebook L))" "c e = Inr e'"
  shows "dhgcn_derived e' = dhgcn_derived e"
proof -
  from assms(1) have "c = dhgcn_cell_incidence_shape L \<or> c = dhgcn_cell_model L
      \<or> c = dhgcn_cell_optimizer L \<or> c = dhgcn_cell_split \<or> c = dhgcn_cell_train L"
    by (simp add: dhgcn_notebook_def)
  then show ?thesis
    using assms(2) by (auto dest: dhgcn_cell_incidence_shape_keeps dhgcn_cell_model_keeps dhgcn_cell_optimizer_keeps dhgcn_cell_split_keeps dhgcn_cell_train_keeps)
qed

subsection \<open>the lifted lists are not read\<close>

lemma with_lifted_fields [simp]:
  "kept (with_lifted a b env) = kept env"
  "net_of (with_lifted a b env) = net_of env"
  "loss (with_lifted a b env) = loss env"
  "stdout (with_lifted a b env) = stdout env"
  "calls (with_lifted a b env) = calls env"
  "epoch_i (with_lifted a b env) = epoch_i env"
  "test_interval (with_lifted a b env) = test_interval env"
  "x_0_train (with_lifted a b env) = x_0_train env"
  "y_train (with_lifted a b env) = y_train env"
  "x_0_test (with_lifted a b env) = x_0_test env"
  "y_test (with_lifted a b env) = y_test env"
  by (simp_all add: with_lifted_def kept_def net_of_def)

lemma train_sample_with_lifted:
  "train_sample L (with_lifted a b env) xy = with_lifted a b (train_sample L env xy)"
  by (simp add: train_sample_def with_lifted_def Let_def)

lemma foldl_train_sample_with_lifted:
  "foldl (train_sample L) (with_lifted a b env) ps = with_lifted a b (foldl (train_sample L) env ps)"
  by (induction ps arbitrary: env) (simp_all add: train_sample_with_lifted)

lemma test_sample_with_lifted:
  "test_sample L (with_lifted a b env) xy = with_lifted a b (test_sample L env xy)"
  by (simp add: test_sample_def with_lifted_def Let_def)

lemma foldl_test_sample_with_lifted:
  "foldl (test_sample L) (with_lifted a b env) ps = with_lifted a b (foldl (test_sample L) env ps)"
  by (induction ps arbitrary: env) (simp_all add: test_sample_with_lifted)

lemma train_phase_with_lifted:
  "train_phase L (with_lifted a b env) = with_lifted a b (train_phase L env)"
proof -
  have c: "(with_lifted a b env)\<lparr>epoch_loss := [], training := True, calls := calls env @ [Call_train]\<rparr>
      = with_lifted a b (env\<lparr>epoch_loss := [], training := True, calls := calls env @ [Call_train]\<rparr>)"
    by (simp add: with_lifted_def)
  show ?thesis
    by (simp add: train_phase_def Let_def c foldl_train_sample_with_lifted)
       (simp add: with_lifted_def)
qed

lemma test_branch_with_lifted:
  "test_branch L (with_lifted a b env) = map_sum id (with_lifted a b) (test_branch L env)"
  by (simp add: test_branch_def Let_def foldl_test_sample_with_lifted split: option.splits)
     (simp add: with_lifted_def)

lemma epoch_with_lifted:
  "epoch L (with_lifted a b env) i = map_sum id (with_lifted a b) (epoch L env i)"
proof -
  have c: "(with_lifted a b env)\<lparr>epoch_i := i\<rparr> = with_lifted a b (env\<lparr>epoch_i := i\<rparr>)"
    by (simp add: with_lifted_def)
  show ?thesis
    by (simp add: epoch_def Let_def c train_phase_with_lifted test_branch_with_lifted)
qed

lemma epochs_with_lifted:
  "epochs L (with_lifted a b env) ks = map_sum id (with_lifted a b) (epochs L env ks)"
  by (induction ks arbitrary: env) (simp_all add: epoch_with_lifted split: sum.splits)

lemma dhgcn_cell_train_with_lifted:
  "dhgcn_cell_train L (with_lifted a b env) = map_sum id (with_lifted a b) (dhgcn_cell_train L env)"
proof -
  have c: "(with_lifted a b env)\<lparr>test_interval := 1, num_epochs := 5\<rparr>
      = with_lifted a b (env\<lparr>test_interval := 1, num_epochs := 5\<rparr>)"
    by (simp add: with_lifted_def)
  show ?thesis
    unfolding dhgcn_cell_train_unfold c by (rule epochs_with_lifted)
qed

lemma dhgcn_cell_model_with_lifted:
  "dhgcn_cell_model L (with_lifted a b env) = map_sum id (with_lifted a b) (dhgcn_cell_model L env)"
  by (simp add: dhgcn_cell_model_def with_lifted_def Let_def and_then_def split: sum.splits)

lemma dhgcn_cell_optimizer_with_lifted:
  "dhgcn_cell_optimizer L (with_lifted a b env)
     = map_sum id (with_lifted a b) (dhgcn_cell_optimizer L env)"
  by (simp add: dhgcn_cell_optimizer_def with_lifted_def Let_def)

lemma dhgcn_cell_split_with_lifted:
  "dhgcn_cell_split (with_lifted a b env) = map_sum id (with_lifted a b) (dhgcn_cell_split env)"
  by (simp add: dhgcn_cell_split_def with_lifted_def Let_def and_then_def split: sum.splits prod.splits)

lemma dhgcn_cell_incidence_shape_hg:
  "dhgcn_cell_incidence_shape L (env\<lparr>hg_list := b\<rparr>)
     = map_sum id (\<lambda>e. e\<lparr>hg_list := b\<rparr>) (dhgcn_cell_incidence_shape L env)"
  by (simp add: dhgcn_cell_incidence_shape_def Let_def and_then_def split: sum.splits)

subsection \<open>what the forward passes receive\<close>

lemma train_phase_inputs_gr:
  "forward_inputs gr (calls (train_phase L env)) =
     forward_inputs gr (calls env)
       @ (if gr then map (\<lambda>xy. as_input L (device env) (fst xy)) (zip (x_0_train env) (y_train env)) else [])"
  by (simp add: train_phase_def Let_def foldl_train_sample_inputs)

lemma test_branch_inputs_gr:
  assumes "test_branch L env = Inr env'"
  shows "forward_inputs gr (calls env') =
     forward_inputs gr (calls env)
       @ (if gr then [] else map (\<lambda>xy. as_input L (device env) (fst xy)) (zip (x_0_test env) (y_test env)))"
proof -
  let ?e = "foldl (test_sample L) env (zip (x_0_test env) (y_test env))"
  obtain l where e: "env' = ?e\<lparr>stdout := stdout ?e @ [Print_test l]\<rparr>"
    using assms by (auto simp add: test_branch_def Let_def split: option.splits)
  show ?thesis
    by (simp add: e foldl_test_sample_inputs)
qed

lemma set_map_fst_zip:
  "set (map (\<lambda>xy. f (fst xy)) (zip as bs)) \<subseteq> f ` set as"
  by (auto dest: set_zip_leftD)

lemma epoch_inputs:
  assumes "epoch L env i = Inr env'"
  shows "kept env' = kept env"
    and "set (forward_inputs gr (calls env')) \<subseteq>
       set (forward_inputs gr (calls env))
         \<union> as_input L (device env) ` (set (x_0_train env) \<union> set (x_0_test env))"
proof -
  let ?e0 = "env\<lparr>epoch_i := i\<rparr>"
  let ?e1 = "train_phase L ?e0"
  have k0: "kept ?e0 = kept env" "calls ?e0 = calls env"
    by (simp_all add: kept_def)
  have k1: "kept ?e1 = kept env"
    using k0 by simp
  note d0 = keptD [OF k0(1)] and d1 = keptD [OF k1]
  have i1: "set (forward_inputs gr (calls ?e1)) \<subseteq>
       set (forward_inputs gr (calls env)) \<union> as_input L (device env) ` set (x_0_train env)"
    using set_map_fst_zip [of "as_input L (device env)" "x_0_train env" "y_train env"] d0 k0(2)
    by (auto simp add: train_phase_inputs_gr)
  from assms have "env' = ?e1 \<or> test_branch L ?e1 = Inr env'"
    by (auto simp add: epoch_def Let_def split: if_splits)
  then have "kept env' = kept env \<and> set (forward_inputs gr (calls env')) \<subseteq>
       set (forward_inputs gr (calls env))
         \<union> as_input L (device env) ` (set (x_0_train env) \<union> set (x_0_test env))"
  proof
    assume "env' = ?e1"
    then show ?thesis using k1 i1 by auto
  next
    assume t: "test_branch L ?e1 = Inr env'"
    have "set (forward_inputs gr (calls env')) \<subseteq>
        set (forward_inputs gr (calls ?e1)) \<union> as_input L (device env) ` set (x_0_test env)"
      using set_map_fst_zip [of "as_input L (device env)" "x_0_test env" "y_test env"] d1
      by (auto simp add: test_branch_inputs_gr [OF t])
    then show ?thesis
      using test_branch_Inr(1) [OF t] k1 i1 by auto
  qed
  then show "kept env' = kept env"
    and "set (forward_inputs gr (calls env')) \<subseteq>
       set (forward_inputs gr (calls env))
         \<union> as_input L (device env) ` (set (x_0_train env) \<union> set (x_0_test env))"
    by simp_all
qed

lemma epochs_inputs:
  "epochs L env ks = Inr env' \<Longrightarrow>
     set (forward_inputs gr (calls env')) \<subseteq>
       set (forward_inputs gr (calls env))
         \<union> as_input L (device env) ` (set (x_0_train env) \<union> set (x_0_test env))"
proof (induction ks arbitrary: env)
  case Nil
  then show ?case by auto
next
  case (Cons k ks)
  from Cons.prems obtain e1 where e1: "epoch L env k = Inr e1" "epochs L e1 ks = Inr env'"
    by (auto split: sum.splits)
  note d = keptD [OF epoch_inputs(1) [OF e1(1)]]
  show ?case
    using Cons.IH [OF e1(2)] epoch_inputs(2) [OF e1(1), of gr] d by auto
qed

lemma dhgcn_cell_train_inputs:
  assumes "dhgcn_cell_train L env = Inr env'"
  shows "set (forward_inputs gr (calls env')) \<subseteq>
       set (forward_inputs gr (calls env))
         \<union> as_input L (device env) ` (set (x_0_train env) \<union> set (x_0_test env))"
  using epochs_inputs [of L "env\<lparr>test_interval := 1, num_epochs := 5\<rparr>" "[1, 2, 3, 4, 5]" env' gr] assms
  by (simp add: dhgcn_cell_train_unfold)

lemma dhgcn_cell_train_ok:
  assumes "zip (x_0_train env) (y_train env) \<noteq> []"
  shows "\<exists>env'. dhgcn_cell_train L env = Inr env'"
proof -
  let ?e = "env\<lparr>test_interval := 1, num_epochs := 5\<rparr>"
  have p: "test_interval ?e = 1" "zip (x_0_train ?e) (y_train ?e) \<noteq> []"
    using assms by simp_all
  show ?thesis
    using epochs_ok [OF p, of L "[1, 2, 3, 4, 5]"] by (auto simp add: dhgcn_cell_train_unfold)
qed

subsection \<open>what the split returns\<close>

lemma train_test_split_Inr:
  assumes "train_test_split xs t = Inr (tr, te)"
  shows "tr @ te = xs"
proof -
  let ?n = "length xs"
  let ?m = "nat \<lceil>t * of_nat ?n\<rceil>"
  from assms have ok: "?n - ?m \<noteq> 0" and tr: "tr = take (?n - ?m) xs" and te: "te = take ?m (drop (?n - ?m) xs)"
    by (auto simp add: train_test_split_def Let_def split: if_splits)
  have "length (drop (?n - ?m) xs) \<le> ?m"
    using ok by simp
  then have "te = drop (?n - ?m) xs"
    using te by simp
  then show ?thesis
    using tr by simp
qed

lemma sca_cell_split_parts:
  assumes "sca_cell_split env = Inr env'"
  shows "laplacian_down_1_train env' @ laplacian_down_1_test env' = laplacian_down_1_list env"
    and "laplacian_down_2_train env' @ laplacian_down_2_test env' = laplacian_down_2_list env"
    and "incidence1_t_train env' @ incidence1_t_test env' = incidence1_t_list env"
    and "incidence2_t_train env' @ incidence2_t_test env' = incidence2_t_list env"
  using assms
  by (auto simp add: sca_cell_split_def Let_def and_then_eq_Inr dest!: train_test_split_Inr)

subsection \<open>evaluation of the two runs\<close>

lemma sym_sca_run_value:
  "case sym_sca_run of
     Inl e \<Rightarrow> False
   | Inr env \<Rightarrow> calls env = [] \<and> net_of env = (0, 0, 0)
       \<and> stdout env = [Print_device Cpu, Print_cells 6 ''nodes'' 252 6,
            Print_cells 6 ''edges'' 750 10, Print_cells 6 ''faces'' 500 7]
       \<and> length (x_0_train env) = 8 \<and> length (laplacian_down_1_train env) = 8"
  unfolding sym_sca_run_def by code_simp

lemma sym_dhgcn_run_value:
  "case sym_dhgcn_run of
     Inl e \<Rightarrow> False
   | Inr env \<Rightarrow> \<not> consumes_lifted env \<and> length (incidence_1_list env) = 10
       \<and> length (hg_list env) = 10 \<and> length (calls env) = 225 \<and> net_of env = (40, 1, 40)"
  unfolding sym_dhgcn_run_def by code_simp

lemma case_sum_Inr:
  "(case r of Inl e \<Rightarrow> False | Inr a \<Rightarrow> P a) \<Longrightarrow> \<exists>a. r = Inr a \<and> P a"
  by (cases r) simp_all

lemma not_isl_Inr: "\<not> isl r \<Longrightarrow> r = Inr (projr r)"
  by (cases r) simp_all

section \<open>The training cell of the DHGCN notebook\<close>

text \<open>
  Claim C2. The training phase of the DHGCN notebook is a fixed epoch loop. On a
  training set that is not empty the cell ends without an exception after exactly five
  epochs (\<open>num_epochs = 5\<close>, and \<open>epoch_i = 5\<close> when the loop is left). Parameters,
  gradients and optimiser after the cell are those of five epochs of \<open>sgd_step\<close> over
  the training pairs in order, where \<open>sgd_step\<close> is zero_grad, forward pass, loss,
  backward pass, optimiser step. The calls recorded are, five times over:
  \<open>model.train()\<close>, then for each training pair zero_grad, forward, loss, backward,
  step in that order, then for each test pair forward and loss. The forward passes
  with autograd on receive the converted training features, in order, once per epoch.
  The only calls of an epoch that write gradients, parameters or optimiser are
  zero_grad, backward and step, once each per training pair.
\<close>

theorem dhgcn_training_is_five_epochs:
  assumes "zip (x_0_train env) (y_train env) \<noteq> []"
  shows "\<exists>env'. dhgcn_cell_train L env = Inr env'
     \<and> num_epochs env' = 5 \<and> epoch_i env' = 5
     \<and> net_of env' =
         (sgd_epoch L (device env) (loss_fn env) (zip (x_0_train env) (y_train env)) ^^ 5) (net_of env)
     \<and> map op_of (calls env') = map op_of (calls env)
          @ concat (replicate 5
              (epoch_ops (length (zip (x_0_train env) (y_train env))) (length (zip (x_0_test env) (y_test env)))))
     \<and> forward_inputs True (calls env') = forward_inputs True (calls env)
          @ concat (replicate 5
              (map (\<lambda>xy. as_input L (device env) (fst xy)) (zip (x_0_train env) (y_train env))))
     \<and> filter writes_net (epoch_ops (length (zip (x_0_train env) (y_train env))) (length (zip (x_0_test env) (y_test env))))
         = concat (replicate (length (zip (x_0_train env) (y_train env))) [Op_zero_grad, Op_backward, Op_step])"
proof -
  let ?e = "env\<lparr>test_interval := 1, num_epochs := 5\<rparr>"
  have p: "test_interval ?e = 1" "zip (x_0_train ?e) (y_train ?e) \<noteq> []"
    using assms by simp_all
  obtain env' where env': "epochs L ?e [1, 2, 3, 4, 5] = Inr env'" "kept env' = kept ?e"
      "epoch_i env' = (if [1, 2, 3, 4, 5::nat] = [] then epoch_i ?e else last [1, 2, 3, 4, 5])"
      "net_of env' =
         (sgd_epoch L (device ?e) (loss_fn ?e) (zip (x_0_train ?e) (y_train ?e)) ^^ length [1, 2, 3, 4, 5::nat]) (net_of ?e)"
      "map op_of (calls env') = map op_of (calls ?e)
          @ concat (replicate (length [1, 2, 3, 4, 5::nat])
              (epoch_ops (length (zip (x_0_train ?e) (y_train ?e))) (length (zip (x_0_test ?e) (y_test ?e)))))"
      "forward_inputs True (calls env') = forward_inputs True (calls ?e)
          @ concat (replicate (length [1, 2, 3, 4, 5::nat])
              (map (\<lambda>xy. as_input L (device ?e) (fst xy)) (zip (x_0_train ?e) (y_train ?e))))"
    using epochs_ok [OF p, of L "[1, 2, 3, 4, 5]"] by blast
  have n: "num_epochs env' = 5"
    using keptD [OF env'(2)] by simp
  have w: "filter writes_net (epoch_ops n m) = concat (replicate n [Op_zero_grad, Op_backward, Op_step])" for n m
  proof -
    have a: "filter writes_net (concat (replicate n five_ops)) = concat (replicate n [Op_zero_grad, Op_backward, Op_step])"
      by (induction n) (simp_all add: five_ops_def writes_net_def)
    have b: "filter writes_net (concat (replicate m [Op_forward, Op_loss_fn])) = []"
      by (induction m) (simp_all add: writes_net_def)
    show ?thesis
      by (simp add: epoch_ops_def a b) (simp add: writes_net_def)
  qed
  have l5: "length [1, 2, 3, 4, 5::nat] = 5" by simp
  show ?thesis
    using env'(1,3,4,5,6) n w unfolding l5
    by (simp add: dhgcn_cell_train_unfold net_of_def)
qed

theorem dhgcn_training_is_five_epochs_witness:
  "zip (x_0_train sym_split_env) (y_train sym_split_env) \<noteq> []
   \<and> (\<exists>env'. dhgcn_cell_train sym_libs sym_split_env = Inr env'
         \<and> epoch_i env' = 5 \<and> net_of env' = (10, 1, 10))"
proof -
  have h: "zip (x_0_train sym_split_env) (y_train sym_split_env) \<noteq> []"
    by (simp add: sym_split_env_def)
  have v: "(sgd_epoch sym_libs (device sym_split_env) (loss_fn sym_split_env)
             (zip (x_0_train sym_split_env) (y_train sym_split_env)) ^^ 5) (net_of sym_split_env) = (10, 1, 10)"
    by code_simp
  show ?thesis
    using h dhgcn_training_is_five_epochs [OF h, of sym_libs] unfolding v by blast
qed

text \<open>
  Claim C8. The value printed as \<open>Test_loss\<close> is the loss of the last test sample
  only. Whenever the evaluation branch is entered with a test set that is not empty
  (features and labels of equal number), it ends without an exception and appends one
  line to the output: \<open>loss_fn(model(x), y)\<close> for the last test feature array and the
  last test label, computed with autograd off under the parameters the model has at
  that moment. The losses of the other test samples are overwritten and not printed.
  So for every epoch \<open>i\<close> (with \<open>test_interval = 1\<close>, as the cell sets it) the last line
  the epoch prints is that loss under the parameters the epoch ends with.
\<close>

theorem test_loss_is_loss_of_last_test_sample:
  assumes "x_0_test env \<noteq> []" "length (y_test env) = length (x_0_test env)"
  shows "(\<exists>env'. test_branch L env = Inr env'
       \<and> stdout env' = stdout env @
            [Print_test (loss_fn env (forward L (model env) (training env) False
                                        (as_input L (device env) (last (x_0_test env))))
                                     (as_label L (device env) (last (y_test env))))]
       \<and> last (stdout env') =
            Print_test (sample_loss L (device env) (loss_fn env) (training env) False (model env)
                          (last (x_0_test env), last (y_test env))))
     \<and> (test_interval env = 1 \<longrightarrow>
         (\<exists>env'. epoch L env i = Inr env'
           \<and> last (stdout env') =
                Print_test (sample_loss L (device env) (loss_fn env) True False (model env')
                              (last (x_0_test env), last (y_test env)))))"
proof -
  have branch: "\<exists>env'. test_branch L e = Inr env'
       \<and> net_of env' = net_of e
       \<and> stdout env' = stdout e @
            [Print_test (sample_loss L (device e) (loss_fn e) (training e) False (model e)
                          (last (x_0_test e), last (y_test e)))]"
    if "x_0_test e \<noteq> []" "length (y_test e) = length (x_0_test e)" for e :: "('a, 'b, 'c, 'd) dhgcn_env"
  proof -
    have ne: "zip (x_0_test e) (y_test e) \<noteq> []"
      using that by (cases "x_0_test e"; cases "y_test e") simp_all
    have "y_test e \<noteq> []"
      using that by auto
    then have l: "last (zip (x_0_test e) (y_test e)) = (last (x_0_test e), last (y_test e))"
      using that by (simp add: last_zip)
    obtain env' where e': "test_branch L e = Inr env'"
      "stdout env' = stdout e @
         [Print_test (if zip (x_0_test e) (y_test e) = [] then the (loss e)
            else sample_loss L (device e) (loss_fn e) (training e) False (fst (net_of e))
                   (last (zip (x_0_test e) (y_test e))))]"
      using test_branch_ok [of e L] ne by blast
    show ?thesis
      using e' test_branch_Inr(4) [OF e'(1)] ne l by (simp add: net_of_def)
  qed
  have a: "\<exists>env'. test_branch L env = Inr env'
       \<and> stdout env' = stdout env @
            [Print_test (loss_fn env (forward L (model env) (training env) False
                                        (as_input L (device env) (last (x_0_test env))))
                                     (as_label L (device env) (last (y_test env))))]
       \<and> last (stdout env') =
            Print_test (sample_loss L (device env) (loss_fn env) (training env) False (model env)
                          (last (x_0_test env), last (y_test env)))"
    using branch [OF assms] by (auto simp add: sample_loss_def)
  have b: "\<exists>env'. epoch L env i = Inr env'
           \<and> last (stdout env') =
                Print_test (sample_loss L (device env) (loss_fn env) True False (model env')
                              (last (x_0_test env), last (y_test env)))"
    if t: "test_interval env = 1"
  proof -
    let ?e0 = "env\<lparr>epoch_i := i\<rparr>"
    let ?e1 = "train_phase L ?e0"
    have k0: "kept ?e0 = kept env"
      by (simp add: kept_def)
    then have k1: "kept ?e1 = kept env"
      by simp
    note d1 = keptD [OF k1]
    have run: "epoch L env i = test_branch L ?e1"
      using d1 t by (simp add: epoch_def Let_def)
    have p: "x_0_test ?e1 \<noteq> []" "length (y_test ?e1) = length (x_0_test ?e1)"
      using d1 assms by simp_all
    obtain env' where e': "test_branch L ?e1 = Inr env'" "net_of env' = net_of ?e1"
       "stdout env' = stdout ?e1 @
            [Print_test (sample_loss L (device ?e1) (loss_fn ?e1) (training ?e1) False (model ?e1)
                          (last (x_0_test ?e1), last (y_test ?e1)))]"
      using branch [OF p] by blast
    have m: "model env' = model ?e1"
      using e'(2) by (simp add: net_of_def)
    have tr: "training ?e1" by simp
    show ?thesis
      using run e'(1,3) m tr d1 by simp
  qed
  show ?thesis
    using a b by blast
qed

theorem test_loss_is_loss_of_last_test_sample_witness:
  "x_0_test (sym_split_env\<lparr>test_interval := 1\<rparr>) \<noteq> []
   \<and> length (y_test (sym_split_env\<lparr>test_interval := 1\<rparr>))
       = length (x_0_test (sym_split_env\<lparr>test_interval := 1\<rparr>))
   \<and> test_interval (sym_split_env\<lparr>test_interval := 1\<rparr>) = 1
   \<and> (\<exists>env'. test_branch sym_libs (sym_split_env\<lparr>test_interval := 1\<rparr>) = Inr env'
         \<and> last (stdout env') =
             Print_test (Fn F_mse [Fn F_model [Num 0, Fn F_to [Fn F_float [Fn F_tensor [Sample Node_feat 3]], Cpu]],
                                   Fn F_to [Fn F_tensor_float [Sample Label 3], Cpu]]))
   \<and> (\<exists>env'. epoch sym_libs (sym_split_env\<lparr>test_interval := 1\<rparr>) 1 = Inr env'
         \<and> last (stdout env') =
             Print_test (Fn F_mse [Fn F_model [Num (model env'), Fn F_to [Fn F_float [Fn F_tensor [Sample Node_feat 3]], Cpu]],
                                   Fn F_to [Fn F_tensor_float [Sample Label 3], Cpu]]))"
proof -
  let ?e = "sym_split_env\<lparr>test_interval := 1\<rparr>"
  have h: "x_0_test ?e \<noteq> []" "length (y_test ?e) = length (x_0_test ?e)"
    by (simp_all add: sym_split_env_def)
  have t: "test_interval ?e = 1"
    by simp
  have v: "sample_loss sym_libs (device ?e) (loss_fn ?e) tr False p (last (x_0_test ?e), last (y_test ?e))
           = Fn F_mse [Fn F_model [Num p, Fn F_to [Fn F_float [Fn F_tensor [Sample Node_feat 3]], Cpu]],
                       Fn F_to [Fn F_tensor_float [Sample Label 3], Cpu]]" for tr p
    by (simp add: sample_loss_def as_input_def as_label_def sym_split_env_def sym_libs_def)
  have m: "model ?e = 0"
    by (simp add: sym_split_env_def sym_dhgcn_env_def sym_nb_env_def)
  show ?thesis
    using h t test_loss_is_loss_of_last_test_sample [OF h, of sym_libs 1] unfolding v m by blast
qed

text \<open>
  Claim C9. Evaluation on the test set never modifies the model. Whenever the
  evaluation branch returns, parameters, gradients, optimiser and mode of the module
  are what they were when it was entered; the calls it adds are forward passes and
  losses only, none of them writes, and every forward pass runs with autograd off.
\<close>

theorem evaluation_never_modifies_the_model:
  assumes "test_branch L env = Inr env'"
  shows "model env' = model env \<and> grads env' = grads env \<and> opt env' = opt env
     \<and> training env' = training env
     \<and> (\<exists>cs. calls env' = calls env @ cs
           \<and> (\<forall>c \<in> set cs. op_of c = Op_forward \<or> op_of c = Op_loss_fn)
           \<and> filter writes_net (map op_of cs) = []
           \<and> forward_inputs True cs = [])"
proof -
  let ?e = "foldl (test_sample L) env (zip (x_0_test env) (y_test env))"
  obtain l where e: "env' = ?e\<lparr>stdout := stdout ?e @ [Print_test l]\<rparr>"
    using assms by (auto simp add: test_branch_def Let_def split: option.splits)
  obtain cs where cs: "calls ?e = calls env @ cs"
      "\<forall>c \<in> set cs. op_of c = Op_forward \<or> op_of c = Op_loss_fn" "forward_inputs True cs = []"
    using foldl_test_sample_calls_prefix [of L env] by blast
  have "filter writes_net (map op_of cs) = []"
    using cs(2) by (auto simp add: filter_empty_conv writes_net_def)
  moreover have "calls env' = calls env @ cs"
    using cs(1) by (simp add: e)
  moreover have "net_of env' = net_of env"
    using test_branch_Inr(4) [OF assms] .
  moreover have "training env' = training env"
    using test_branch_Inr(5) [OF assms] .
  ultimately show ?thesis
    using cs(2,3) by (auto simp add: net_of_def)
qed

theorem evaluation_never_modifies_the_model_witness:
  "\<exists>env'. test_branch sym_libs sym_split_env = Inr env'
     \<and> model env' = model sym_split_env \<and> grads env' = grads sym_split_env
     \<and> opt env' = opt sym_split_env"
proof -
  have "\<not> isl (test_branch sym_libs sym_split_env)"
    by code_simp
  then obtain env' where h: "test_branch sym_libs sym_split_env = Inr env'"
    by (cases "test_branch sym_libs sym_split_env") simp_all
  show ?thesis
    using h evaluation_never_modifies_the_model [OF h] by blast
qed

text \<open>
  Claim C10. The training loss printed for an epoch is \<open>np.mean\<close> of exactly the losses
  of that epoch. After the training phase \<open>epoch_loss\<close> holds \<open>loss.item()\<close> of each
  training pair in order, computed during this epoch from the parameters the epoch
  starts with; it has one entry per training pair; it does not depend on what
  \<open>epoch_loss\<close> held before (the list of the previous epoch); and the line printed for
  epoch \<open>i\<close> is \<open>np.mean\<close> of this list.
\<close>

theorem epoch_loss_is_mean_of_this_epoch:
  "epoch_loss (train_phase L env) =
     map (item L) (sgd_losses L (device env) (loss_fn env) (net_of env) (zip (x_0_train env) (y_train env)))
   \<and> length (epoch_loss (train_phase L env)) = length (zip (x_0_train env) (y_train env))
   \<and> epoch_loss (train_phase L (env\<lparr>epoch_loss := old\<rparr>)) = epoch_loss (train_phase L env)
   \<and> stdout (train_phase L (env\<lparr>epoch_i := i\<rparr>)) =
       stdout env @ [Print_epoch i (np_mean L (epoch_loss (train_phase L env)))]"
proof -
  have a: "epoch_loss (train_phase L e) =
     map (item L) (sgd_losses L (device e) (loss_fn e) (net_of e) (zip (x_0_train e) (y_train e)))" for e
    by (rule train_phase_epoch_loss)
  have b: "epoch_loss (train_phase L (env\<lparr>epoch_loss := old\<rparr>)) = epoch_loss (train_phase L env)"
    by (simp add: a net_of_def)
  have c: "epoch_loss (train_phase L (env\<lparr>epoch_i := i\<rparr>)) = epoch_loss (train_phase L env)"
    by (simp add: a net_of_def)
  have d: "stdout (train_phase L (env\<lparr>epoch_i := i\<rparr>)) =
       stdout env @ [Print_epoch i (np_mean L (epoch_loss (train_phase L env)))]"
    by (simp add: train_phase_stdout c)
  show ?thesis
    using a [of env] b d by simp
qed

section \<open>Pre-processing and split\<close>

text \<open>
  Claim C5. For every simplicial complex of the dataset the pre-processing loop of the
  SCA-CMPS notebook derives exactly four matrices by library calls: the down-Laplacian
  of rank 1, the down-Laplacian of rank 2, the transpose of the incidence matrix of
  rank 1 and the transpose of the incidence matrix of rank 2. Each is converted to a
  sparse tensor and appended to its list. After the loop each of the four lists has as
  many entries as there are complexes, and entry \<open>i\<close> is derived from complex \<open>i\<close>.
  The cell never raises, and it leaves the complexes as they are.
\<close>

theorem sca_four_matrices_per_complex:
  "\<exists>env'. sca_cell_neighborhoods L env = Inr env'
     \<and> scs env' = scs env
     \<and> laplacian_down_1_list env' = map (\<lambda>sc. sparse L (down_laplacian_matrix L sc 1)) (scs env)
     \<and> laplacian_down_2_list env' = map (\<lambda>sc. sparse L (down_laplacian_matrix L sc 2)) (scs env)
     \<and> incidence1_t_list env' = map (\<lambda>sc. sparse L (transpose_T L (incidence_matrix L sc 1 None))) (scs env)
     \<and> incidence2_t_list env' = map (\<lambda>sc. sparse L (transpose_T L (incidence_matrix L sc 2 None))) (scs env)
     \<and> length (laplacian_down_1_list env') = length (scs env)
     \<and> length (laplacian_down_2_list env') = length (scs env)
     \<and> length (incidence1_t_list env') = length (scs env)
     \<and> length (incidence2_t_list env') = length (scs env)
     \<and> (\<forall>i < length (scs env).
           laplacian_down_1_list env' ! i = sparse L (down_laplacian_matrix L (scs env ! i) 1)
         \<and> laplacian_down_2_list env' ! i = sparse L (down_laplacian_matrix L (scs env ! i) 2)
         \<and> incidence1_t_list env' ! i = sparse L (transpose_T L (incidence_matrix L (scs env ! i) 1 None))
         \<and> incidence2_t_list env' ! i = sparse L (transpose_T L (incidence_matrix L (scs env ! i) 2 None)))"
  by (simp add: sca_cell_neighborhoods_eq)

theorem sca_four_matrices_per_complex_witness:
  "(1::nat) < length (scs (sym_sca_env\<lparr>scs := ten Complex\<rparr>))
   \<and> (\<exists>env'. sca_cell_neighborhoods sym_libs (sym_sca_env\<lparr>scs := ten Complex\<rparr>) = Inr env'
         \<and> length (incidence2_t_list env') = 10
         \<and> incidence2_t_list env' ! 1 =
             Fn F_to_sparse [Fn F_from_numpy [Fn F_todense [Fn F_T [Fn F_incidence_matrix [Sample Complex 1, Num 2]]]]])"
proof -
  have h: "(1::nat) < length (scs (sym_sca_env\<lparr>scs := ten Complex\<rparr>))"
    by (simp add: ten_def)
  have l: "length (scs (sym_sca_env\<lparr>scs := ten Complex\<rparr>)) = 10"
    by (simp add: ten_def)
  have v: "sparse sym_libs (transpose_T sym_libs (incidence_matrix sym_libs (scs (sym_sca_env\<lparr>scs := ten Complex\<rparr>) ! 1) 2 None))
      = Fn F_to_sparse [Fn F_from_numpy [Fn F_todense [Fn F_T [Fn F_incidence_matrix [Sample Complex 1, Num 2]]]]]"
    by code_simp
  obtain env' where e: "sca_cell_neighborhoods sym_libs (sym_sca_env\<lparr>scs := ten Complex\<rparr>) = Inr env'"
     "length (incidence2_t_list env') = length (scs (sym_sca_env\<lparr>scs := ten Complex\<rparr>))"
     "\<forall>i < length (scs (sym_sca_env\<lparr>scs := ten Complex\<rparr>)).
         incidence2_t_list env' ! i = sparse sym_libs (transpose_T sym_libs (incidence_matrix sym_libs (scs (sym_sca_env\<lparr>scs := ten Complex\<rparr>) ! i) 2 None))"
    using sca_four_matrices_per_complex [of sym_libs "sym_sca_env\<lparr>scs := ten Complex\<rparr>"] by blast
  have "incidence2_t_list env' ! 1 =
     Fn F_to_sparse [Fn F_from_numpy [Fn F_todense [Fn F_T [Fn F_incidence_matrix [Sample Complex 1, Num 2]]]]]"
    using e(3) h v by auto
  then show ?thesis
    using h e(1,2) l by auto
qed

text \<open>
  Claim C4. The split is deterministic and keeps the order. Every call passes
  \<open>test_size = 0.2\<close> without shuffling; on arrays of 100 samples each training part is
  the first 80 elements in their order and each test part is the last 20 in their
  order. So entry \<open>i\<close> of every training list (features of each rank, the four lists
  of matrices, labels) is entry \<open>i\<close> of the list it was split from, and entry \<open>i\<close> of
  every test list is entry \<open>80 + i\<close>. This holds for the eight calls of the SCA-CMPS
  notebook and for the two calls of the DHGCN notebook.
\<close>

theorem split_is_first_80_then_last_20:
  "(length (x_0s env) = 100 \<and> length (x_1s env) = 100 \<and> length (x_2s env) = 100
      \<and> length (laplacian_down_1_list env) = 100 \<and> length (laplacian_down_2_list env) = 100
      \<and> length (incidence1_t_list env) = 100 \<and> length (incidence2_t_list env) = 100
      \<and> length (ys env) = 100
    \<longrightarrow> (\<exists>env'. sca_cell_split env = Inr env' \<and> test_size env' = 2 / 10
          \<and> x_0_train env' = take 80 (x_0s env) \<and> x_0_test env' = drop 80 (x_0s env)
          \<and> x_1_train env' = take 80 (x_1s env) \<and> x_1_test env' = drop 80 (x_1s env)
          \<and> x_2_train env' = take 80 (x_2s env) \<and> x_2_test env' = drop 80 (x_2s env)
          \<and> laplacian_down_1_train env' = take 80 (laplacian_down_1_list env)
          \<and> laplacian_down_1_test env' = drop 80 (laplacian_down_1_list env)
          \<and> laplacian_down_2_train env' = take 80 (laplacian_down_2_list env)
          \<and> laplacian_down_2_test env' = drop 80 (laplacian_down_2_list env)
          \<and> incidence1_t_train env' = take 80 (incidence1_t_list env)
          \<and> incidence1_t_test env' = drop 80 (incidence1_t_list env)
          \<and> incidence2_t_train env' = take 80 (incidence2_t_list env)
          \<and> incidence2_t_test env' = drop 80 (incidence2_t_list env)
          \<and> y_train env' = take 80 (ys env) \<and> y_test env' = drop 80 (ys env)
          \<and> (\<forall>i < 80.
                x_0_train env' ! i = x_0s env ! i \<and> x_1_train env' ! i = x_1s env ! i
              \<and> x_2_train env' ! i = x_2s env ! i
              \<and> laplacian_down_1_train env' ! i = laplacian_down_1_list env ! i
              \<and> laplacian_down_2_train env' ! i = laplacian_down_2_list env ! i
              \<and> incidence1_t_train env' ! i = incidence1_t_list env ! i
              \<and> incidence2_t_train env' ! i = incidence2_t_list env ! i
              \<and> y_train env' ! i = ys env ! i)
          \<and> (\<forall>i < 20.
                x_0_test env' ! i = x_0s env ! (80 + i) \<and> x_1_test env' ! i = x_1s env ! (80 + i)
              \<and> x_2_test env' ! i = x_2s env ! (80 + i)
              \<and> laplacian_down_1_test env' ! i = laplacian_down_1_list env ! (80 + i)
              \<and> laplacian_down_2_test env' ! i = laplacian_down_2_list env ! (80 + i)
              \<and> incidence1_t_test env' ! i = incidence1_t_list env ! (80 + i)
              \<and> incidence2_t_test env' ! i = incidence2_t_list env ! (80 + i)
              \<and> y_test env' ! i = ys env ! (80 + i))))
   \<and> (length (x_0s denv) = 100 \<and> length (ys denv) = 100
    \<longrightarrow> (\<exists>denv'. dhgcn_cell_split denv = Inr denv' \<and> test_size denv' = 2 / 10
          \<and> x_0_train denv' = take 80 (x_0s denv) \<and> x_0_test denv' = drop 80 (x_0s denv)
          \<and> y_train denv' = take 80 (ys denv) \<and> y_test denv' = drop 80 (ys denv)
          \<and> (\<forall>i < 80. x_0_train denv' ! i = x_0s denv ! i \<and> y_train denv' ! i = ys denv ! i)
          \<and> (\<forall>i < 20. x_0_test denv' ! i = x_0s denv ! (80 + i)
                       \<and> y_test denv' ! i = ys denv ! (80 + i))))"
proof (intro conjI impI)
  assume "length (x_0s env) = 100 \<and> length (x_1s env) = 100 \<and> length (x_2s env) = 100
      \<and> length (laplacian_down_1_list env) = 100 \<and> length (laplacian_down_2_list env) = 100
      \<and> length (incidence1_t_list env) = 100 \<and> length (incidence2_t_list env) = 100
      \<and> length (ys env) = 100"
  then show "\<exists>env'. sca_cell_split env = Inr env' \<and> test_size env' = 2 / 10
          \<and> x_0_train env' = take 80 (x_0s env) \<and> x_0_test env' = drop 80 (x_0s env)
          \<and> x_1_train env' = take 80 (x_1s env) \<and> x_1_test env' = drop 80 (x_1s env)
          \<and> x_2_train env' = take 80 (x_2s env) \<and> x_2_test env' = drop 80 (x_2s env)
          \<and> laplacian_down_1_train env' = take 80 (laplacian_down_1_list env)
          \<and> laplacian_down_1_test env' = drop 80 (laplacian_down_1_list env)
          \<and> laplacian_down_2_train env' = take 80 (laplacian_down_2_list env)
          \<and> laplacian_down_2_test env' = drop 80 (laplacian_down_2_list env)
          \<and> incidence1_t_train env' = take 80 (incidence1_t_list env)
          \<and> incidence1_t_test env' = drop 80 (incidence1_t_list env)
          \<and> incidence2_t_train env' = take 80 (incidence2_t_list env)
          \<and> incidence2_t_test env' = drop 80 (incidence2_t_list env)
          \<and> y_train env' = take 80 (ys env) \<and> y_test env' = drop 80 (ys env)
          \<and> (\<forall>i < 80.
                x_0_train env' ! i = x_0s env ! i \<and> x_1_train env' ! i = x_1s env ! i
              \<and> x_2_train env' ! i = x_2s env ! i
              \<and> laplacian_down_1_train env' ! i = laplacian_down_1_list env ! i
              \<and> laplacian_down_2_train env' ! i = laplacian_down_2_list env ! i
              \<and> incidence1_t_train env' ! i = incidence1_t_list env ! i
              \<and> incidence2_t_train env' ! i = incidence2_t_list env ! i
              \<and> y_train env' ! i = ys env ! i)
          \<and> (\<forall>i < 20.
                x_0_test env' ! i = x_0s env ! (80 + i) \<and> x_1_test env' ! i = x_1s env ! (80 + i)
              \<and> x_2_test env' ! i = x_2s env ! (80 + i)
              \<and> laplacian_down_1_test env' ! i = laplacian_down_1_list env ! (80 + i)
              \<and> laplacian_down_2_test env' ! i = laplacian_down_2_list env ! (80 + i)
              \<and> incidence1_t_test env' ! i = incidence1_t_list env ! (80 + i)
              \<and> incidence2_t_test env' ! i = incidence2_t_list env ! (80 + i)
              \<and> y_test env' ! i = ys env ! (80 + i))"
    by (simp add: sca_cell_split_100)
next
  assume "length (x_0s denv) = 100 \<and> length (ys denv) = 100"
  then show "\<exists>denv'. dhgcn_cell_split denv = Inr denv' \<and> test_size denv' = 2 / 10
          \<and> x_0_train denv' = take 80 (x_0s denv) \<and> x_0_test denv' = drop 80 (x_0s denv)
          \<and> y_train denv' = take 80 (ys denv) \<and> y_test denv' = drop 80 (ys denv)
          \<and> (\<forall>i < 80. x_0_train denv' ! i = x_0s denv ! i \<and> y_train denv' ! i = ys denv ! i)
          \<and> (\<forall>i < 20. x_0_test denv' ! i = x_0s denv ! (80 + i)
                       \<and> y_test denv' ! i = ys denv ! (80 + i))"
    by (simp add: dhgcn_cell_split_100)
qed

theorem split_is_first_80_then_last_20_witness:
  "length (x_0s sym_hundred_sca_env) = 100 \<and> length (x_1s sym_hundred_sca_env) = 100
   \<and> length (x_2s sym_hundred_sca_env) = 100
   \<and> length (laplacian_down_1_list sym_hundred_sca_env) = 100
   \<and> length (laplacian_down_2_list sym_hundred_sca_env) = 100
   \<and> length (incidence1_t_list sym_hundred_sca_env) = 100
   \<and> length (incidence2_t_list sym_hundred_sca_env) = 100
   \<and> length (ys sym_hundred_sca_env) = 100
   \<and> length (x_0s sym_hundred_dhgcn_env) = 100 \<and> length (ys sym_hundred_dhgcn_env) = 100
   \<and> (\<exists>env'. sca_cell_split sym_hundred_sca_env = Inr env'
         \<and> length (x_0_train env') = 80 \<and> length (x_0_test env') = 20
         \<and> x_0_train env' ! 79 = Sample Node_feat 79 \<and> y_train env' ! 79 = Sample Label 79
         \<and> laplacian_down_2_train env' ! 79 = Fn F_down_laplacian_matrix [Sample Complex 79, Num 2]
         \<and> x_0_test env' ! 0 = Sample Node_feat 80 \<and> y_test env' ! 19 = Sample Label 99)
   \<and> (\<exists>denv'. dhgcn_cell_split sym_hundred_dhgcn_env = Inr denv'
         \<and> length (y_train denv') = 80 \<and> length (y_test denv') = 20
         \<and> x_0_train denv' ! 0 = Sample Node_feat 0 \<and> y_train denv' ! 0 = Sample Label 0
         \<and> x_0_test denv' ! 19 = Sample Node_feat 99 \<and> y_test denv' ! 19 = Sample Label 99)"
proof -
  have h: "length (x_0s sym_hundred_sca_env) = 100 \<and> length (x_1s sym_hundred_sca_env) = 100
      \<and> length (x_2s sym_hundred_sca_env) = 100
      \<and> length (laplacian_down_1_list sym_hundred_sca_env) = 100
      \<and> length (laplacian_down_2_list sym_hundred_sca_env) = 100
      \<and> length (incidence1_t_list sym_hundred_sca_env) = 100
      \<and> length (incidence2_t_list sym_hundred_sca_env) = 100
      \<and> length (ys sym_hundred_sca_env) = 100"
    by (simp add: sym_hundred_sca_env_def)
  have d: "length (x_0s sym_hundred_dhgcn_env) = 100 \<and> length (ys sym_hundred_dhgcn_env) = 100"
    by (simp add: sym_hundred_dhgcn_env_def)
  have v: "x_0s sym_hundred_sca_env = hundred Node_feat" "ys sym_hundred_sca_env = hundred Label"
    "laplacian_down_2_list sym_hundred_sca_env = map (\<lambda>c. Fn F_down_laplacian_matrix [c, Num 2]) (hundred Complex)"
    "x_0s sym_hundred_dhgcn_env = hundred Node_feat" "ys sym_hundred_dhgcn_env = hundred Label"
    by (simp_all add: sym_hundred_sca_env_def sym_hundred_dhgcn_env_def)
  note t = split_is_first_80_then_last_20 [of sym_hundred_sca_env sym_hundred_dhgcn_env]
  from t h obtain env' where e: "sca_cell_split sym_hundred_sca_env = Inr env'"
      "x_0_train env' = take 80 (x_0s sym_hundred_sca_env)" "x_0_test env' = drop 80 (x_0s sym_hundred_sca_env)"
      "y_train env' = take 80 (ys sym_hundred_sca_env)" "y_test env' = drop 80 (ys sym_hundred_sca_env)"
      "laplacian_down_2_train env' = take 80 (laplacian_down_2_list sym_hundred_sca_env)"
    by blast
  from t d obtain denv' where f: "dhgcn_cell_split sym_hundred_dhgcn_env = Inr denv'"
      "x_0_train denv' = take 80 (x_0s sym_hundred_dhgcn_env)" "x_0_test denv' = drop 80 (x_0s sym_hundred_dhgcn_env)"
      "y_train denv' = take 80 (ys sym_hundred_dhgcn_env)" "y_test denv' = drop 80 (ys sym_hundred_dhgcn_env)"
    by blast
  have "\<exists>env'. sca_cell_split sym_hundred_sca_env = Inr env'
         \<and> length (x_0_train env') = 80 \<and> length (x_0_test env') = 20
         \<and> x_0_train env' ! 79 = Sample Node_feat 79 \<and> y_train env' ! 79 = Sample Label 79
         \<and> laplacian_down_2_train env' ! 79 = Fn F_down_laplacian_matrix [Sample Complex 79, Num 2]
         \<and> x_0_test env' ! 0 = Sample Node_feat 80 \<and> y_test env' ! 19 = Sample Label 99"
    using e by (simp add: v)
  moreover have "\<exists>denv'. dhgcn_cell_split sym_hundred_dhgcn_env = Inr denv'
         \<and> length (y_train denv') = 80 \<and> length (y_test denv') = 20
         \<and> x_0_train denv' ! 0 = Sample Node_feat 0 \<and> y_train denv' ! 0 = Sample Label 0
         \<and> x_0_test denv' ! 19 = Sample Node_feat 99 \<and> y_test denv' ! 19 = Sample Label 99"
    using f by (simp add: v)
  ultimately show ?thesis
    using h d by blast
qed

section \<open>The data after pre-processing\<close>

text \<open>
  Claim C6. The arrays a notebook loads (\<open>x_0s\<close>, \<open>x_1s\<close>, \<open>x_2s\<close>, \<open>ys\<close>) and the
  lists it derives from the complexes are built once and never changed by a later
  cell. Take any two points \<open>j \<le> k\<close> of a run of a notebook, both after the cell that
  loads the dataset: the four arrays are the same at both. If both points are after
  the cell that derives the lists, the lists are the same at both as well. Splitting,
  tensor conversion, training and testing read the data and leave it as it is. (A
  library call is a function of its arguments here: it returns a value and does not
  write through them.)
\<close>

theorem loaded_data_is_never_mutated:
  "(2 \<le> j \<and> j \<le> k
      \<and> run_cells (take j (sca_cmps_notebook L)) env = Inr ej
      \<and> run_cells (take k (sca_cmps_notebook L)) env = Inr ek
    \<longrightarrow> loaded ek = loaded ej \<and> (4 \<le> j \<longrightarrow> sca_derived ek = sca_derived ej))
   \<and> (2 \<le> j' \<and> j' \<le> k'
      \<and> run_cells (take j' (dhgcn_notebook L)) denv = Inr dj
      \<and> run_cells (take k' (dhgcn_notebook L)) denv = Inr dk
    \<longrightarrow> loaded dk = loaded dj \<and> (5 \<le> j' \<longrightarrow> dhgcn_derived dk = dhgcn_derived dj))"
proof (intro conjI impI)
  assume a: "2 \<le> j \<and> j \<le> k
      \<and> run_cells (take j (sca_cmps_notebook L)) env = Inr ej
      \<and> run_cells (take k (sca_cmps_notebook L)) env = Inr ek"
  show "loaded ek = loaded ej"
    using run_cells_between [of 2 "sca_cmps_notebook L" loaded j k env ej ek]
      sca_later_cells_keep_loaded a by blast
  assume "4 \<le> j"
  then show "sca_derived ek = sca_derived ej"
    using run_cells_between [of 4 "sca_cmps_notebook L" sca_derived j k env ej ek]
      sca_later_cells_keep_derived a by blast
next
  assume a: "2 \<le> j' \<and> j' \<le> k'
      \<and> run_cells (take j' (dhgcn_notebook L)) denv = Inr dj
      \<and> run_cells (take k' (dhgcn_notebook L)) denv = Inr dk"
  show "loaded dk = loaded dj"
    using run_cells_between [of 2 "dhgcn_notebook L" loaded j' k' denv dj dk]
      dhgcn_later_cells_keep_loaded a by blast
  assume "5 \<le> j'"
  then show "dhgcn_derived dk = dhgcn_derived dj"
    using run_cells_between [of 5 "dhgcn_notebook L" dhgcn_derived j' k' denv dj dk]
      dhgcn_later_cells_keep_derived a by blast
qed

theorem loaded_data_is_never_mutated_witness:
  "(2::nat) \<le> 4 \<and> (4::nat) \<le> 7
   \<and> \<not> isl (run_cells (take 4 (sca_cmps_notebook sym_libs)) sym_sca_env)
   \<and> \<not> isl (run_cells (take 7 (sca_cmps_notebook sym_libs)) sym_sca_env)
   \<and> loaded (projr (run_cells (take 7 (sca_cmps_notebook sym_libs)) sym_sca_env))
       = loaded (projr (run_cells (take 4 (sca_cmps_notebook sym_libs)) sym_sca_env))
   \<and> sca_derived (projr (run_cells (take 7 (sca_cmps_notebook sym_libs)) sym_sca_env))
       = sca_derived (projr (run_cells (take 4 (sca_cmps_notebook sym_libs)) sym_sca_env))
   \<and> (2::nat) \<le> 5 \<and> (5::nat) \<le> 10
   \<and> \<not> isl (run_cells (take 5 (dhgcn_notebook sym_libs)) sym_dhgcn_env)
   \<and> \<not> isl (run_cells (take 10 (dhgcn_notebook sym_libs)) sym_dhgcn_env)
   \<and> loaded (projr (run_cells (take 10 (dhgcn_notebook sym_libs)) sym_dhgcn_env))
       = loaded (projr (run_cells (take 5 (dhgcn_notebook sym_libs)) sym_dhgcn_env))
   \<and> dhgcn_derived (projr (run_cells (take 10 (dhgcn_notebook sym_libs)) sym_dhgcn_env))
       = dhgcn_derived (projr (run_cells (take 5 (dhgcn_notebook sym_libs)) sym_dhgcn_env))"
proof -
  have s4: "\<not> isl (run_cells (take 4 (sca_cmps_notebook sym_libs)) sym_sca_env)"
    by code_simp
  have "take 7 (sca_cmps_notebook sym_libs) = sca_cmps_notebook sym_libs"
    by (simp add: sca_cmps_notebook_def)
  then have r7: "run_cells (take 7 (sca_cmps_notebook sym_libs)) sym_sca_env = sym_sca_run"
    by (simp add: sym_sca_run_def)
  obtain a where a: "sym_sca_run = Inr a"
    using case_sum_Inr [OF sym_sca_run_value] by auto
  have s7: "\<not> isl (run_cells (take 7 (sca_cmps_notebook sym_libs)) sym_sca_env)"
    unfolding r7 a by simp
  have d5: "\<not> isl (run_cells (take 5 (dhgcn_notebook sym_libs)) sym_dhgcn_env)"
    by code_simp
  have "take 10 (dhgcn_notebook sym_libs) = dhgcn_notebook sym_libs"
    by (simp add: dhgcn_notebook_def)
  then have r10: "run_cells (take 10 (dhgcn_notebook sym_libs)) sym_dhgcn_env = sym_dhgcn_run"
    by (simp add: sym_dhgcn_run_def)
  obtain b where b: "sym_dhgcn_run = Inr b"
    using case_sum_Inr [OF sym_dhgcn_run_value] by auto
  have d10: "\<not> isl (run_cells (take 10 (dhgcn_notebook sym_libs)) sym_dhgcn_env)"
    unfolding r10 b by simp
  note t = loaded_data_is_never_mutated [of 4 7 sym_libs sym_sca_env
      "projr (run_cells (take 4 (sca_cmps_notebook sym_libs)) sym_sca_env)"
      "projr (run_cells (take 7 (sca_cmps_notebook sym_libs)) sym_sca_env)"
      5 10 sym_dhgcn_env
      "projr (run_cells (take 5 (dhgcn_notebook sym_libs)) sym_dhgcn_env)"
      "projr (run_cells (take 10 (dhgcn_notebook sym_libs)) sym_dhgcn_env)"]
  show ?thesis
    using t not_isl_Inr [OF s4] not_isl_Inr [OF s7] not_isl_Inr [OF d5] not_isl_Inr [OF d10]
      s4 s7 d5 d10 by simp
qed

text \<open>
  Claim C3, as amended. The pre-processing cell of the DHGCN notebook builds one
  unsigned incidence matrix of rank 1 (as a sparse tensor) and one hypergraph per
  complex, but training and testing do not consume them. The cells that build the
  model and the optimiser, the split and the training cell neither read nor write
  \<open>incidence_1_list\<close> and \<open>hg_list\<close>: run on a state where the two lists are replaced by
  any others, each gives the same result with the two lists replaced. The cell that
  prints the shape of one incidence matrix does not read \<open>hg_list\<close>. Every forward pass
  of the training cell, with autograd on or off, receives a converted node feature
  array of \<open>x_0_train\<close> or \<open>x_0_test\<close>. In the SCA-CMPS notebook the four derived lists
  are consumed by \<open>train_test_split\<close>: training and test part of each, one after the
  other, are the list.
\<close>

theorem lifted_structures_are_built_but_not_consumed:
  "(\<exists>env1. dhgcn_cell_lift L env = Inr env1
       \<and> incidence_1_list env1 = map (\<lambda>c. sparse L (incidence_matrix L c 1 (Some False))) (simplexes env)
       \<and> hg_list env1 = map (to_hypergraph L) (simplexes env))
   \<and> dhgcn_cell_incidence_shape L (env\<lparr>hg_list := b\<rparr>)
       = map_sum id (\<lambda>e. e\<lparr>hg_list := b\<rparr>) (dhgcn_cell_incidence_shape L env)
   \<and> dhgcn_cell_model L (with_lifted a b env) = map_sum id (with_lifted a b) (dhgcn_cell_model L env)
   \<and> dhgcn_cell_optimizer L (with_lifted a b env)
       = map_sum id (with_lifted a b) (dhgcn_cell_optimizer L env)
   \<and> dhgcn_cell_split (with_lifted a b env) = map_sum id (with_lifted a b) (dhgcn_cell_split env)
   \<and> dhgcn_cell_train L (with_lifted a b env) = map_sum id (with_lifted a b) (dhgcn_cell_train L env)
   \<and> (dhgcn_cell_train L env = Inr env'
        \<longrightarrow> set (forward_inputs gr (calls env')) \<subseteq>
              set (forward_inputs gr (calls env))
                \<union> as_input L (device env) ` (set (x_0_train env) \<union> set (x_0_test env)))
   \<and> (sca_cell_split senv = Inr senv'
        \<longrightarrow> laplacian_down_1_train senv' @ laplacian_down_1_test senv' = laplacian_down_1_list senv
          \<and> laplacian_down_2_train senv' @ laplacian_down_2_test senv' = laplacian_down_2_list senv
          \<and> incidence1_t_train senv' @ incidence1_t_test senv' = incidence1_t_list senv
          \<and> incidence2_t_train senv' @ incidence2_t_test senv' = incidence2_t_list senv)"
  using dhgcn_cell_train_inputs [of L env env' gr] sca_cell_split_parts [of senv senv']
  by (simp add: dhgcn_cell_lift_eq dhgcn_cell_incidence_shape_hg dhgcn_cell_model_with_lifted
      dhgcn_cell_optimizer_with_lifted dhgcn_cell_split_with_lifted dhgcn_cell_train_with_lifted)

theorem lifted_structures_are_built_but_not_consumed_witness:
  "\<not> isl (dhgcn_cell_train sym_libs sym_split_env)
   \<and> set (forward_inputs False (calls (projr (dhgcn_cell_train sym_libs sym_split_env))))
       \<subseteq> set (forward_inputs False (calls sym_split_env))
           \<union> as_input sym_libs (device sym_split_env)
               ` (set (x_0_train sym_split_env) \<union> set (x_0_test sym_split_env))
   \<and> \<not> isl (sca_cell_split sym_hundred_sca_env)
   \<and> incidence2_t_train (projr (sca_cell_split sym_hundred_sca_env))
         @ incidence2_t_test (projr (sca_cell_split sym_hundred_sca_env))
       = incidence2_t_list sym_hundred_sca_env"
proof -
  have "zip (x_0_train sym_split_env) (y_train sym_split_env) \<noteq> []"
    by (simp add: sym_split_env_def)
  then obtain e where e: "dhgcn_cell_train sym_libs sym_split_env = Inr e"
    using dhgcn_cell_train_ok by blast
  have "length (x_0s sym_hundred_sca_env) = 100" "length (x_1s sym_hundred_sca_env) = 100"
      "length (x_2s sym_hundred_sca_env) = 100"
      "length (laplacian_down_1_list sym_hundred_sca_env) = 100"
      "length (laplacian_down_2_list sym_hundred_sca_env) = 100"
      "length (incidence1_t_list sym_hundred_sca_env) = 100"
      "length (incidence2_t_list sym_hundred_sca_env) = 100"
      "length (ys sym_hundred_sca_env) = 100"
    by (simp_all add: sym_hundred_sca_env_def)
  then obtain f where f: "sca_cell_split sym_hundred_sca_env = Inr f"
    using sca_cell_split_100 [of sym_hundred_sca_env] by blast
  show ?thesis
    using lifted_structures_are_built_but_not_consumed
      [of sym_libs sym_split_env "[]" "[]" e False sym_hundred_sca_env f]
    unfolding e f by simp
qed

text \<open>
  The claim C3 as the specification states it fails on the small instance: the DHGCN
  notebook runs to its end, holds ten incidence matrices and ten hypergraphs, makes 225
  calls on model, loss and optimiser, and no argument of any of them mentions an
  incidence matrix or a hypergraph.
\<close>

theorem lifted_structures_consumed_counterexample:
  "\<not> isl sym_dhgcn_run
   \<and> length (incidence_1_list (projr sym_dhgcn_run)) = 10
   \<and> length (hg_list (projr sym_dhgcn_run)) = 10
   \<and> length (calls (projr sym_dhgcn_run)) = 225
   \<and> \<not> consumes_lifted (projr sym_dhgcn_run)"
proof -
  obtain e where e: "sym_dhgcn_run = Inr e" "\<not> consumes_lifted e"
      "length (incidence_1_list e) = 10" "length (hg_list e) = 10" "length (calls e) = 225"
    using case_sum_Inr [OF sym_dhgcn_run_value] by auto
  show ?thesis
    unfolding e(1) using e(2-) by simp
qed

section \<open>The two notebooks from start to end\<close>

text \<open>
  Claim C1 says that each of the two notebooks runs a train/test loop after it has
  built its model. On the small instance the SCA-CMPS notebook runs to its end without
  one: no call is made on the model, the loss or the optimiser; parameters, gradients
  and optimiser are as they were built (no step taken); and the output holds the
  device and the three lines of the report, no epoch line and no test line. The DHGCN
  notebook, on the same dataset, makes 225 such calls and takes 40 optimiser steps.
\<close>

theorem sca_cmps_notebook_never_trains:
  "\<not> isl sym_sca_run \<and> calls (projr sym_sca_run) = [] \<and> net_of (projr sym_sca_run) = (0, 0, 0)
   \<and> stdout (projr sym_sca_run) =
       [Print_device Cpu, Print_cells 6 ''nodes'' 252 6, Print_cells 6 ''edges'' 750 10,
        Print_cells 6 ''faces'' 500 7]
   \<and> \<not> isl sym_dhgcn_run \<and> length (calls (projr sym_dhgcn_run)) = 225
   \<and> net_of (projr sym_dhgcn_run) = (40, 1, 40)"
proof -
  obtain a where a: "sym_sca_run = Inr a" "calls a = []" "net_of a = (0, 0, 0)"
      "stdout a = [Print_device Cpu, Print_cells 6 ''nodes'' 252 6, Print_cells 6 ''edges'' 750 10,
        Print_cells 6 ''faces'' 500 7]"
    using case_sum_Inr [OF sym_sca_run_value] by auto
  obtain b where b: "sym_dhgcn_run = Inr b" "length (calls b) = 225" "net_of b = (40, 1, 40)"
    using case_sum_Inr [OF sym_dhgcn_run_value] by auto
  show ?thesis
    unfolding a(1) b(1) using a(2-) b(2-) by simp
qed

end
